theory Spec2Isabelle
  imports Main "HOL-Library.Char_ord" "HOL-Library.List_Lexorder"
begin

unbundle bit_operations_syntax

section \<open>The project core of the language-service server (src/server/project.ts)\<close>

text \<open>
  The theory embeds the classes of \<^verbatim>\<open>src/server/project.ts\<close>: \<^verbatim>\<open>UnresolvedImportsMap\<close>,
  the abstract \<^verbatim>\<open>Project\<close> and its subclasses \<^verbatim>\<open>InferredProject\<close> and
  \<^verbatim>\<open>ConfiguredProject\<close>. A method becomes a function from the state before the call to the
  state after it (and the returned value). Objects that the source shares by reference
  and mutates (compiler options, programs) live in explicit stores. Collaborators that are
  defined in other files of the repository (the compilation engine, the resolution cache,
  the typings cache, the project service, helper functions of the compiler) are the fields
  of an environment record \<open>Env\<close>; every theorem holds for all environments. Calls made on
  collaborators for their effect are appended to the \<open>calls\<close> trace of the state.

  Numbers are natural numbers or integers (the source's counters are IEEE doubles; the
  loss of precision beyond \<open>2^53\<close> is outside the model). Strings are lists of
  \<^typ>\<open>char\<close>, read as code units below 256.
\<close>

subsection \<open>Strings\<close>

type_synonym Path = string
type_synonym NormalizedPath = string

text \<open>
  \<^verbatim>\<open>String.prototype.trim\<close> strips white space and line terminators from both ends. Of
  the characters that ECMAScript strips, these are the ones a \<^typ>\<open>char\<close> can hold: TAB,
  LF, VT, FF, CR, SPACE and NBSP.
\<close>

definition isWhiteSpaceLike :: "char \<Rightarrow> bool" where
  "isWhiteSpaceLike c =
     (c = CHR 0x09 \<or> c = CHR 0x0A \<or> c = CHR 0x0B \<or> c = CHR 0x0C \<or> c = CHR 0x0D \<or>
      c = CHR 0x20 \<or> c = CHR 0xA0)"

definition trim :: "string \<Rightarrow> string" where
  "trim s = rev (dropWhile isWhiteSpaceLike (rev (dropWhile isWhiteSpaceLike s)))"

text \<open>
  \<^verbatim>\<open>s.indexOf(c, position)\<close> for a one-character search string: the index of the first
  occurrence at or after \<open>position\<close>, or \<open>-1\<close>.
\<close>

fun indexOfAux :: "string \<Rightarrow> char \<Rightarrow> nat \<Rightarrow> int" where
  "indexOfAux [] c n = - 1"
| "indexOfAux (x # xs) c n = (if x = c then int n else indexOfAux xs c (Suc n))"

definition indexOf :: "string \<Rightarrow> char \<Rightarrow> nat \<Rightarrow> int" where
  "indexOf s c position = indexOfAux (drop position s) c (min position (length s))"

text \<open>\<^verbatim>\<open>s.charCodeAt(i)\<close>: \<open>None\<close> stands for \<^verbatim>\<open>NaN\<close>, the result out of range.\<close>

definition charCodeAt :: "string \<Rightarrow> nat \<Rightarrow> char option" where
  "charCodeAt s i = (if i < length s then Some (s ! i) else None)"

text \<open>
  Modelled from the spec: the constant \<^verbatim>\<open>CharacterCodes.at\<close> (compiler/types.ts) is not
  under src/. It is the code of the character \<^verbatim>\<open>@\<close>, the first character of a scoped name.
\<close>

definition CharacterCodes_at :: char where
  "CharacterCodes_at = CHR ''@''"

text \<open>\<^verbatim>\<open>s.substr(start, length)\<close> for a start and a length that are not negative.\<close>

definition substr :: "string \<Rightarrow> nat \<Rightarrow> nat \<Rightarrow> string" where
  "substr s start len = take len (drop start s)"

subsection \<open>Data model\<close>

datatype ProjectKind = Inferred | Configured | External

text \<open>
  Modelled from the spec: the enum \<^verbatim>\<open>StructureIsReused\<close> (compiler/types.ts) is not under
  src/. It says how much of the old program the new one inherits, and Completely is its
  greatest value; the values are the flags
  \<^verbatim>\<open>Not = 0, SafeModules = 1 << 0, Completely = 1 << 1\<close>. A program that was never the
  old program of another one has no flag (\<^verbatim>\<open>undefined\<close>), which the bitwise operators read
  as 0 (\<open>toInt32\<close>).
\<close>

datatype StructureIsReused =
  StructureIsReused_Not | StructureIsReused_SafeModules | StructureIsReused_Completely

fun StructureIsReused_value :: "StructureIsReused \<Rightarrow> nat" where
  "StructureIsReused_value StructureIsReused_Not = 0"
| "StructureIsReused_value StructureIsReused_SafeModules = 1"
| "StructureIsReused_value StructureIsReused_Completely = 2"

fun toInt32 :: "StructureIsReused option \<Rightarrow> nat" where
  "toInt32 None = 0"
| "toInt32 (Some f) = StructureIsReused_value f"

text \<open>A resolved module is represented by its resolved file name.\<close>

type_synonym ResolvedModuleFull = string

text \<open>
  A source file of a program. \<open>resolvedModules\<close> is the insertion-ordered map from
  specifier to resolved module (\<open>None\<close>: resolution failed); the field itself may be
  absent. \<open>sf_fromExternalLibrary\<close> is what \<^verbatim>\<open>program.isSourceFileFromExternalLibrary\<close>
  answers for the file.
\<close>

record SourceFile =
  sf_path :: Path
  sf_fileName :: string
  resolvedModules :: "(string \<times> ResolvedModuleFull option) list option"
  sf_fromExternalLibrary :: bool

record ConfigFile =
  cf_fileName :: string
  extendedSourceFiles :: "string list option"

text \<open>
  A program snapshot: \<^verbatim>\<open>getSourceFiles()\<close>, the mutable \<^verbatim>\<open>structureIsReused\<close> flag,
  \<^verbatim>\<open>getCompilerOptions().configFile\<close> and \<^verbatim>\<open>getMissingFilePaths()\<close>.
\<close>

record Program =
  sourceFiles :: "SourceFile list"
  structureIsReused :: "StructureIsReused option"
  configFile :: "ConfigFile option"
  missingFilePaths :: "Path list"

record PluginImport =
  pi_name :: string
  pi_global :: "bool option"

text \<open>
  The compiler options that project.ts reads or writes; \<open>otherOptions\<close> holds every other
  option.
\<close>

record CompilerOptions =
  allowNonTsExtensions :: "bool option"
  allowJs :: "bool option"
  maxNodeModuleJsDepth :: "int option"
  noEmitForJsFiles :: "bool option"
  co_plugins :: "PluginImport list option"
  otherOptions :: "(string \<times> string) list"

text \<open>A script info: its path, its file name and what \<^verbatim>\<open>isJavaScript()\<close> answers.\<close>

record ScriptInfo =
  si_path :: Path
  si_fileName :: NormalizedPath
  si_isJavaScript :: bool

datatype ProjectRoot = RootScriptInfo ScriptInfo | RootNormalizedPath NormalizedPath

record Diagnostic =
  diag_file :: "string option"
  diag_messageText :: string

datatype WatchType =
  FailedLookupLocation | MissingFilePath | ConfigFilePath | WildcardDirectories | TypeRoot

datatype WatcherCloseReason =
  ProjectClose | NotNeeded | FileCreated | RecursiveChanged

text \<open>Objects that the model does not look into are references.\<close>

type_synonym OptionsRef = nat
type_synonym ProgramRef = nat
type_synonym LanguageService = nat
type_synonym PluginModule = nat
type_synonym PluginModuleFactory = nat
type_synonym FileWatcher = nat
type_synonym Exception = string

record PluginCreateInfo =
  pci_config :: PluginImport
  pci_languageService :: LanguageService

text \<open>The calls on collaborators that are made for their effect.\<close>

datatype Call =
    StartRecordingFilesWithChangedResolutions
  | CreateHasInvalidatedResolution
  | FinishRecordingFilesWithChangedResolutions
  | GetProgram
  | GetTypingsForProject "string list option" bool
  | DetachFromProject string
  | AttachToProject string
  | AddFileWatcher WatchType Path
  | CloseFileWatcher WatchType Path FileWatcher WatcherCloseReason
  | BuilderOnProgramUpdateGraph
  | BuilderClear
  | InvalidateResolutionOfFile Path
  | ResolutionCacheClear
  | SetCompilationSettings OptionsRef
  | StopWatchingConfigFilesForInferredProjectRoot Path WatcherCloseReason
  | ReloadConfiguredProject
  | CleanupSemanticCache
  | OnUpdateLanguageServiceStateForProject bool
  | GetOrCreateScriptInfo string
  | CallPluginFactory PluginModuleFactory
  | CallPluginCreate PluginModule PluginCreateInfo
  | CallPluginGetExternalFiles PluginModule
  | LoggerInfo string

subsection \<open>UnresolvedImportsMap\<close>

record UnresolvedImportsMap =
  perFileMap :: "Path \<rightharpoonup> string list"
  version :: nat

definition UnresolvedImportsMap_new :: UnresolvedImportsMap where
  "UnresolvedImportsMap_new = \<lparr>perFileMap = Map.empty, version = 0\<rparr>"

definition UnresolvedImportsMap_clear :: "UnresolvedImportsMap \<Rightarrow> UnresolvedImportsMap" where
  "UnresolvedImportsMap_clear m = m\<lparr>perFileMap := Map.empty, version := 0\<rparr>"

definition UnresolvedImportsMap_getVersion :: "UnresolvedImportsMap \<Rightarrow> nat" where
  "UnresolvedImportsMap_getVersion m = version m"

definition UnresolvedImportsMap_remove :: "Path \<Rightarrow> UnresolvedImportsMap \<Rightarrow> UnresolvedImportsMap" where
  "UnresolvedImportsMap_remove p m = m\<lparr>perFileMap := (perFileMap m)(p := None), version := version m + 1\<rparr>"

definition UnresolvedImportsMap_get :: "UnresolvedImportsMap \<Rightarrow> Path \<Rightarrow> string list option" where
  "UnresolvedImportsMap_get m p = perFileMap m p"

definition UnresolvedImportsMap_set ::
  "Path \<Rightarrow> string list \<Rightarrow> UnresolvedImportsMap \<Rightarrow> UnresolvedImportsMap" where
  "UnresolvedImportsMap_set p v m = m\<lparr>perFileMap := (perFileMap m)(p \<mapsto> v), version := version m + 1\<rparr>"

subsection \<open>The state of a project\<close>

text \<open>
  The fields of \<^verbatim>\<open>Project\<close>, of \<^verbatim>\<open>InferredProject\<close> (\<open>isJsInferredProject\<close>) and of
  \<^verbatim>\<open>ConfiguredProject\<close> (\<open>pendingReload\<close>, \<open>plugins\<close>, \<open>projectErrors\<close>), the stores of
  the shared objects (\<open>optionsStore\<close> with its allocation counter \<open>optionsNext\<close>, and
  \<open>programStore\<close>) and the trace of the calls on collaborators. The model describes a
  project between its construction and \<^verbatim>\<open>close()\<close>.
\<close>

record Project =
  projectName :: string
  projectKind :: ProjectKind
  compilerOptions :: OptionsRef
  languageServiceEnabled :: bool
  rootFiles :: "ScriptInfo list"
  rootFilesMap :: "Path \<rightharpoonup> ProjectRoot"
  program :: "ProgramRef option"
  externalFiles :: "string list option"
  missingFilesMap :: "(Path \<times> FileWatcher) list option"
  cachedUnresolvedImportsPerFile :: UnresolvedImportsMap
  lastCachedUnresolvedImportsList :: "string list option"
  languageService :: LanguageService
  builder :: "unit option"
  updatedFileNames :: "string list option"
  lastReportedFileNames :: "string list option"
  lastReportedVersion :: nat
  projectStructureVersion :: nat
  projectStateVersion :: nat
  typingFiles :: "string list option"
  isJsInferredProject :: bool
  pendingReload :: bool
  plugins :: "PluginModule list"
  projectErrors :: "Diagnostic list option"
  optionsStore :: "OptionsRef \<Rightarrow> CompilerOptions"
  optionsNext :: nat
  programStore :: "ProgramRef \<Rightarrow> Program"
  calls :: "Call list"

subsection \<open>Collaborators\<close>

datatype InsertOrDelete = Inserted string | Deleted string

datatype PluginExternalFiles =
    NoGetExternalFiles
  | GetExternalFilesThrows Exception
  | GetExternalFilesReturns "string list option"

text \<open>
  What \<^verbatim>\<open>host.require\<close> hands back as \<^verbatim>\<open>result.module\<close>: a value that is not a
  function, or a plugin factory.
\<close>

datatype ModuleValue = NotAFunction | FactoryFunction PluginModuleFactory

record RequireResult =
  rr_module :: "ModuleValue option"
  rr_error :: "Exception option"

text \<open>
  The environment: what the collaborators outside project.ts answer. A collaborator whose
  answer depends on the project or on what happened before takes the state (which holds
  the trace) as an argument.
  \<^item> \<open>getProgram\<close>: \<^verbatim>\<open>languageService.getProgram()\<close>, the reference it returns and the
    program store after the call (the engine sets \<^verbatim>\<open>structureIsReused\<close> on old programs);
  \<^item> \<open>finishRecordingFilesWithChangedResolutions\<close>, \<open>getTypingsForProject\<close>,
    \<open>getScriptInfo\<close>, \<open>addFileWatcher\<close>, \<open>reloadConfiguredProject\<close>: the resolution cache,
    the typings cache and the project service;
  \<^item> \<open>toDeduplicatedSortedArray\<close>, \<open>toSortedArray\<close>, \<open>enumerateInsertsAndDeletes\<close> (the
    sequence of callbacks it makes), \<open>isExternalModuleNameRelative\<close>,
    \<open>changesAffectModuleResolution\<close>, \<open>getDefaultLibFilePath\<close>,
    \<open>getDefaultCompilerOptions\<close>, \<open>createLanguageService\<close>, \<open>combinePaths\<close>,
    \<open>normalizeSlashes\<close>, \<open>getDirectoryPath\<close>, \<open>toCanonicalFileName\<close>: functions of the
    compiler, the services and the project service;
  \<^item> \<open>callPluginModuleFactory\<close>, \<open>pluginCreate\<close>, \<open>pluginGetExternalFiles\<close>: the code of
    the plugins (\<open>Inl\<close>: the call throws);
  \<^item> \<open>hostRequire\<close> (\<open>None\<close>: the host has no \<^verbatim>\<open>require\<close>), \<open>hostResolvePath\<close>,
    \<open>getExecutingFilePath\<close>, \<open>pluginProbeLocations\<close>, \<open>allowLocalPluginLoads\<close>,
    \<open>globalPlugins\<close>: the server host and the settings of the project service.
\<close>

record Env =
  getProgram :: "Project \<Rightarrow> ProgramRef \<times> (ProgramRef \<Rightarrow> Program)"
  finishRecordingFilesWithChangedResolutions :: "Project \<Rightarrow> Path list option"
  getTypingsForProject :: "Project \<Rightarrow> string list option \<Rightarrow> bool \<Rightarrow> string list option"
  getScriptInfo :: "Project \<Rightarrow> string \<Rightarrow> ScriptInfo option"
  addFileWatcher :: "Project \<Rightarrow> WatchType \<Rightarrow> Path \<Rightarrow> FileWatcher"
  reloadConfiguredProject :: "Project \<Rightarrow> Project"
  toDeduplicatedSortedArray :: "string list \<Rightarrow> string list"
  toSortedArray :: "string list \<Rightarrow> string list"
  enumerateInsertsAndDeletes :: "string list \<Rightarrow> string list \<Rightarrow> InsertOrDelete list"
  isExternalModuleNameRelative :: "string \<Rightarrow> bool"
  changesAffectModuleResolution :: "CompilerOptions \<Rightarrow> CompilerOptions \<Rightarrow> bool"
  getDefaultLibFilePath :: "CompilerOptions \<Rightarrow> string"
  getDefaultCompilerOptions :: CompilerOptions
  createLanguageService :: LanguageService
  combinePaths :: "string \<Rightarrow> string \<Rightarrow> string"
  normalizeSlashes :: "string \<Rightarrow> string"
  getDirectoryPath :: "string \<Rightarrow> string"
  toCanonicalFileName :: "string \<Rightarrow> string"
  callPluginModuleFactory :: "PluginModuleFactory \<Rightarrow> Exception + PluginModule"
  pluginCreate :: "PluginModule \<Rightarrow> PluginCreateInfo \<Rightarrow> Exception + LanguageService"
  pluginGetExternalFiles :: "PluginModule \<Rightarrow> Project \<Rightarrow> PluginExternalFiles"
  hostRequire :: "(string \<Rightarrow> string \<Rightarrow> RequireResult) option"
  hostResolvePath :: "string \<Rightarrow> string"
  getExecutingFilePath :: string
  pluginProbeLocations :: "string list"
  allowLocalPluginLoads :: bool
  globalPlugins :: "string list option"

subsection \<open>Helpers of the compiler's core library\<close>

text \<open>
  Modelled from the spec: \<^verbatim>\<open>arrayIsEqualTo\<close> (compiler/core.ts) is not under src/. The spec
  says that the typing lists are compared element-wise; an absent array equals only an
  absent array.
\<close>

fun arrayIsEqualToElements :: "string list \<Rightarrow> string list \<Rightarrow> bool" where
  "arrayIsEqualToElements [] [] = True"
| "arrayIsEqualToElements (x # xs) (y # ys) = (x = y \<and> arrayIsEqualToElements xs ys)"
| "arrayIsEqualToElements [] (y # ys) = False"
| "arrayIsEqualToElements (x # xs) [] = False"

fun arrayIsEqualTo :: "string list option \<Rightarrow> string list option \<Rightarrow> bool" where
  "arrayIsEqualTo (Some array1) (Some array2) = arrayIsEqualToElements array1 array2"
| "arrayIsEqualTo None None = True"
| "arrayIsEqualTo None (Some array2) = False"
| "arrayIsEqualTo (Some array1) None = False"

text \<open>
  Modelled from the spec: \<^verbatim>\<open>arrayToSet\<close>, \<^verbatim>\<open>createMap\<close> and \<^verbatim>\<open>Map.set\<close> are not under src/.
  A set of names is a map whose keys keep the order of their first insertion.
\<close>

definition mapSetKey :: "string \<Rightarrow> string list \<Rightarrow> string list" where
  "mapSetKey k ks = (if k \<in> set ks then ks else ks @ [k])"

definition arrayToSet :: "string list \<Rightarrow> string list" where
  "arrayToSet xs = foldl (\<lambda>ks k. mapSetKey k ks) [] xs"

text \<open>
  Modelled from the spec: \<^verbatim>\<open>program.getSourceFileByPath\<close> (the compilation engine) is not
  under src/. It answers the source file of the program with the given path, if any.
\<close>

definition getSourceFileByPath :: "Program \<Rightarrow> Path \<Rightarrow> SourceFile option" where
  "getSourceFileByPath prog p = find (\<lambda>f. sf_path f = p) (sourceFiles prog)"

text \<open>
  Modelled from the spec: \<^verbatim>\<open>cloneCompilerOptions\<close> (services/utilities.ts) is not under
  src/. It allocates a new options object that holds the same options.
\<close>

definition cloneCompilerOptions :: "OptionsRef \<Rightarrow> Project \<Rightarrow> OptionsRef \<times> Project" where
  "cloneCompilerOptions r p =
     (optionsNext p,
      p\<lparr>optionsStore := (optionsStore p)(optionsNext p := optionsStore p r),
        optionsNext := optionsNext p + 1\<rparr>)"

text \<open>A boolean option of the compiler is truthy when it is present and true.\<close>

definition truthy :: "bool option \<Rightarrow> bool" where
  "truthy b = (b = Some True)"

subsection \<open>Project: construction and simple methods\<close>

definition logCall :: "Call \<Rightarrow> Project \<Rightarrow> Project" where
  "logCall c p = p\<lparr>calls := calls p @ [c]\<rparr>"

text \<open>An assignment to fields of the options object behind the reference \<open>r\<close>.\<close>

definition updateOptions ::
  "OptionsRef \<Rightarrow> (CompilerOptions \<Rightarrow> CompilerOptions) \<Rightarrow> Project \<Rightarrow> Project" where
  "updateOptions r f p = p\<lparr>optionsStore := (optionsStore p)(r := f (optionsStore p r))\<rparr>"

definition markAsDirty :: "Project \<Rightarrow> Project" where
  "markAsDirty p = p\<lparr>projectStateVersion := projectStateVersion p + 1\<rparr>"

definition registerFileUpdate :: "string \<Rightarrow> Project \<Rightarrow> Project" where
  "registerFileUpdate fileName p =
     p\<lparr>updatedFileNames :=
         Some (mapSetKey fileName (case updatedFileNames p of None \<Rightarrow> [] | Some ks \<Rightarrow> ks))\<rparr>"

definition setInternalCompilerOptionsForEmittingJsFiles :: "Project \<Rightarrow> Project" where
  "setInternalCompilerOptionsForEmittingJsFiles p =
     (if projectKind p = Inferred \<or> projectKind p = External
      then updateOptions (compilerOptions p) (\<lambda>opts. opts\<lparr>noEmitForJsFiles := Some True\<rparr>) p
      else p)"

definition disableLanguageService :: "Project \<Rightarrow> Project" where
  "disableLanguageService p =
     (if \<not> languageServiceEnabled p then p
      else
        let p1 = logCall CleanupSemanticCache p;
            p2 = p1\<lparr>languageServiceEnabled := False\<rparr>
        in logCall (OnUpdateLanguageServiceStateForProject False) p2)"

text \<open>
  The constructor of \<^verbatim>\<open>Project\<close>. Its last three arguments are the stores in which the
  project is created. When no options are passed the constructor allocates the default
  ones, so the field \<open>compilerOptions\<close> always refers to an object, and the guards of
  the source on \<^verbatim>\<open>this.compilerOptions\<close> and \<^verbatim>\<open>getCompilerOptions()\<close> always pass.
\<close>

definition Project_constructor ::
  "Env \<Rightarrow> string \<Rightarrow> ProjectKind \<Rightarrow> bool \<Rightarrow> bool \<Rightarrow> OptionsRef option \<Rightarrow>
   (OptionsRef \<Rightarrow> CompilerOptions) \<Rightarrow> nat \<Rightarrow> (ProgramRef \<Rightarrow> Program) \<Rightarrow> Project" where
  "Project_constructor env name kind hasExplicitListOfFiles languageServiceEnabledArg
       compilerOptionsArg store next progs =
     (let p0 = \<lparr>projectName = name, projectKind = kind,
                compilerOptions = (case compilerOptionsArg of None \<Rightarrow> next | Some r \<Rightarrow> r),
                languageServiceEnabled = True, rootFiles = [], rootFilesMap = Map.empty,
                program = None, externalFiles = None, missingFilesMap = None,
                cachedUnresolvedImportsPerFile = UnresolvedImportsMap_new,
                lastCachedUnresolvedImportsList = None,
                languageService = createLanguageService env, builder = None,
                updatedFileNames = None, lastReportedFileNames = None,
                lastReportedVersion = 0, projectStructureVersion = 0, projectStateVersion = 0,
                typingFiles = None, isJsInferredProject = False, pendingReload = False,
                plugins = [], projectErrors = None,
                optionsStore =
                  (case compilerOptionsArg of
                     None \<Rightarrow> store(next := (getDefaultCompilerOptions env)
                                 \<lparr>allowNonTsExtensions := Some True, allowJs := Some True\<rparr>)
                   | Some r \<Rightarrow> store),
                optionsNext = (case compilerOptionsArg of None \<Rightarrow> next + 1 | Some r \<Rightarrow> next),
                programStore = progs, calls = []\<rparr>;
          p1 = (case compilerOptionsArg of
                  None \<Rightarrow> p0
                | Some r \<Rightarrow>
                    if hasExplicitListOfFiles \<or> truthy (allowJs (optionsStore p0 r))
                    then updateOptions r (\<lambda>opts. opts\<lparr>allowNonTsExtensions := Some True\<rparr>) p0
                    else p0);
          p2 = setInternalCompilerOptionsForEmittingJsFiles p1;
          p3 = logCall (SetCompilationSettings (compilerOptions p2)) p2;
          p4 = (if \<not> languageServiceEnabledArg then disableLanguageService p3 else p3)
      in markAsDirty p4)"

definition getProjectName :: "Project \<Rightarrow> string" where
  "getProjectName p = projectName p"

definition getCompilerOptions :: "Project \<Rightarrow> OptionsRef" where
  "getCompilerOptions p = compilerOptions p"

definition getRootFiles :: "Project \<Rightarrow> NormalizedPath list" where
  "getRootFiles p = map si_fileName (rootFiles p)"

definition getRootScriptInfos :: "Project \<Rightarrow> ScriptInfo list" where
  "getRootScriptInfos p = rootFiles p"

text \<open>
  \<^verbatim>\<open>this.program.getSourceFiles()\<close>. Where the source calls it a program has just been
  stored, so the case of no program (a \<^verbatim>\<open>TypeError\<close> in the source) is never reached.
\<close>

definition getSourceFiles :: "Project \<Rightarrow> SourceFile list" where
  "getSourceFiles p = (case program p of None \<Rightarrow> [] | Some r \<Rightarrow> sourceFiles (programStore p r))"

subsection \<open>Project: unresolved imports\<close>

text \<open>
  Lines 592 to 599 of \<^verbatim>\<open>extractUnresolvedImportsFromSourceFile\<close>: the package prefix of a
  specifier. For non-scoped names the part up to the first slash, for scoped names the part
  up to the second slash.
\<close>

definition unresolvedImportName :: "string \<Rightarrow> string" where
  "unresolvedImportName name =
     (let trimmed = trim name;
          i = indexOf trimmed CHR ''/'' 0;
          i = (if i \<noteq> - 1 \<and> charCodeAt trimmed 0 = Some CharacterCodes_at
               then indexOf trimmed CHR ''/'' (nat (i + 1)) else i)
      in if i \<noteq> - 1 then substr trimmed 0 (nat i) else trimmed)"

text \<open>
  The callback passed to \<^verbatim>\<open>file.resolvedModules.forEach\<close>. The accumulator is the local
  array \<open>unresolvedImports\<close> (absent until the first push) and the sink \<open>result\<close>.
\<close>

definition unresolvedImportsCallback ::
  "Env \<Rightarrow> string list option \<times> string list \<Rightarrow> string \<times> ResolvedModuleFull option \<Rightarrow>
   string list option \<times> string list" where
  "unresolvedImportsCallback env acc entry =
     (case acc of (unresolvedImports, result) \<Rightarrow>
      case entry of (name, resolvedModule) \<Rightarrow>
        if resolvedModule = None \<and> \<not> isExternalModuleNameRelative env name then
          let trimmed = unresolvedImportName name
          in (Some ((case unresolvedImports of None \<Rightarrow> [] | Some u \<Rightarrow> u) @ [trimmed]),
              result @ [trimmed])
        else (unresolvedImports, result))"

definition extractUnresolvedImportsFromSourceFile ::
  "Env \<Rightarrow> SourceFile \<Rightarrow> string list \<Rightarrow> Project \<Rightarrow> Project \<times> string list" where
  "extractUnresolvedImportsFromSourceFile env sourceFile result p =
     (case UnresolvedImportsMap_get (cachedUnresolvedImportsPerFile p) (sf_path sourceFile) of
        Some cached \<Rightarrow> (p, result @ cached)
      | None \<Rightarrow>
          let acc = (case resolvedModules sourceFile of
                       None \<Rightarrow> (None, result)
                     | Some entries \<Rightarrow> foldl (unresolvedImportsCallback env) (None, result) entries)
          in (p\<lparr>cachedUnresolvedImportsPerFile :=
                  UnresolvedImportsMap_set (sf_path sourceFile)
                    (case fst acc of None \<Rightarrow> [] | Some u \<Rightarrow> u)
                    (cachedUnresolvedImportsPerFile p)\<rparr>,
              snd acc))"

subsection \<open>Project: compiler options\<close>

definition Project_setCompilerOptions :: "Env \<Rightarrow> OptionsRef option \<Rightarrow> Project \<Rightarrow> Project" where
  "Project_setCompilerOptions env compilerOptionsArg p =
     (case compilerOptionsArg of
        None \<Rightarrow> p
      | Some r \<Rightarrow>
          let p1 = updateOptions r (\<lambda>opts. opts\<lparr>allowNonTsExtensions := Some True\<rparr>) p;
              p2 = (if changesAffectModuleResolution env
                         (optionsStore p1 (compilerOptions p1)) (optionsStore p1 r)
                    then p1\<lparr>cachedUnresolvedImportsPerFile :=
                              UnresolvedImportsMap_clear (cachedUnresolvedImportsPerFile p1),
                            lastCachedUnresolvedImportsList := None\<rparr>
                    else p1);
              oldOptions = compilerOptions p2;
              p3 = p2\<lparr>compilerOptions := r\<rparr>;
              p4 = setInternalCompilerOptionsForEmittingJsFiles p3;
              p5 = (if changesAffectModuleResolution env
                         (optionsStore p4 oldOptions) (optionsStore p4 r)
                    then logCall ResolutionCacheClear p4 else p4);
              p6 = logCall (SetCompilationSettings (compilerOptions p5)) p5
          in markAsDirty p6)"

subsection \<open>InferredProject\<close>

definition InferredProject_setCompilerOptions ::
  "Env \<Rightarrow> OptionsRef option \<Rightarrow> Project \<Rightarrow> Project" where
  "InferredProject_setCompilerOptions env options p =
     (let cloned = (case options of
                      Some r \<Rightarrow> cloneCompilerOptions r p
                    | None \<Rightarrow> (getCompilerOptions p, p));
          newOptions = fst cloned;
          p1 = snd cloned;
          p2 = (if isJsInferredProject p1 \<and> maxNodeModuleJsDepth (optionsStore p1 newOptions) = None
                then updateOptions newOptions (\<lambda>opts. opts\<lparr>maxNodeModuleJsDepth := Some 2\<rparr>) p1
                else if \<not> isJsInferredProject p1
                then updateOptions newOptions (\<lambda>opts. opts\<lparr>maxNodeModuleJsDepth := None\<rparr>) p1
                else p1);
          p3 = updateOptions newOptions (\<lambda>opts. opts\<lparr>allowJs := Some True\<rparr>) p2
      in Project_setCompilerOptions env (Some newOptions) p3)"

definition toggleJsInferredProject :: "Env \<Rightarrow> bool \<Rightarrow> Project \<Rightarrow> Project" where
  "toggleJsInferredProject env isJs p =
     (if isJs \<noteq> isJsInferredProject p
      then InferredProject_setCompilerOptions env None (p\<lparr>isJsInferredProject := isJs\<rparr>)
      else p)"

subsection \<open>Project: roots and files\<close>

definition isRoot :: "Project \<Rightarrow> ScriptInfo \<Rightarrow> bool" where
  "isRoot p info = (rootFilesMap p (si_path info) = Some (RootScriptInfo info))"

text \<open>
  \<^verbatim>\<open>Project.removeRoot\<close>. \<^verbatim>\<open>orderedRemoveItem\<close> (compiler/core.ts) removes the first
  occurrence of the item and keeps the order of the others.
\<close>

definition Project_removeRoot :: "ScriptInfo \<Rightarrow> Project \<Rightarrow> Project" where
  "Project_removeRoot info p =
     p\<lparr>rootFiles := remove1 info (rootFiles p),
       rootFilesMap := (rootFilesMap p)(si_path info := None)\<rparr>"

definition InferredProject_removeRoot :: "Env \<Rightarrow> ScriptInfo \<Rightarrow> Project \<Rightarrow> Project" where
  "InferredProject_removeRoot env info p =
     (let p1 = logCall (StopWatchingConfigFilesForInferredProjectRoot (si_path info) NotNeeded) p;
          p2 = Project_removeRoot info p1
      in if isJsInferredProject p2 \<and> si_isJavaScript info
         then if list_all (\<lambda>rootInfo. \<not> si_isJavaScript rootInfo) (getRootScriptInfos p2)
              then toggleJsInferredProject env False p2
              else p2
         else p2)"

text \<open>The call \<^verbatim>\<open>this.removeRoot(info)\<close> dispatches on the class of the project.\<close>

definition removeRoot :: "Env \<Rightarrow> ScriptInfo \<Rightarrow> Project \<Rightarrow> Project" where
  "removeRoot env info p =
     (if projectKind p = Inferred then InferredProject_removeRoot env info p
      else Project_removeRoot info p)"

definition removeFile :: "Env \<Rightarrow> ScriptInfo \<Rightarrow> bool \<Rightarrow> Project \<Rightarrow> Project" where
  "removeFile env info detachFromProject p =
     (let p1 = (if isRoot p info then removeRoot env info p else p);
          p2 = logCall (InvalidateResolutionOfFile (si_path info)) p1;
          p3 = p2\<lparr>cachedUnresolvedImportsPerFile :=
                   UnresolvedImportsMap_remove (si_path info) (cachedUnresolvedImportsPerFile p2)\<rparr>;
          p4 = (if detachFromProject then logCall (DetachFromProject (si_fileName info)) p3 else p3)
      in markAsDirty p4)"

definition getFileNames :: "Env \<Rightarrow> bool \<Rightarrow> bool \<Rightarrow> Project \<Rightarrow> NormalizedPath list" where
  "getFileNames env excludeFilesFromExternalLibraries excludeConfigFiles p =
     (case program p of
        None \<Rightarrow> []
      | Some r \<Rightarrow>
          if \<not> languageServiceEnabled p then
            let rootFiles' = getRootFiles p;
                defaultLibrary = getDefaultLibFilePath env (optionsStore p (compilerOptions p))
            in if defaultLibrary \<noteq> [] then rootFiles' @ [defaultLibrary] else rootFiles'
          else
            let result = map sf_fileName
                  (filter (\<lambda>f. \<not> (excludeFilesFromExternalLibraries \<and> sf_fromExternalLibrary f))
                     (sourceFiles (programStore p r)))
            in if \<not> excludeConfigFiles then
                 (case configFile (programStore p r) of
                    None \<Rightarrow> result
                  | Some cf \<Rightarrow>
                      result @ [cf_fileName cf] @
                        (case extendedSourceFiles cf of None \<Rightarrow> [] | Some fs \<Rightarrow> fs))
               else result)"

text \<open>
  \<^verbatim>\<open>getGlobalProjectErrors\<close> is overridden by \<^verbatim>\<open>ConfiguredProject\<close>; the \<^verbatim>\<open>filter\<close> of
  compiler/core.ts answers an absent array for an absent array.
\<close>

definition getGlobalProjectErrors :: "Project \<Rightarrow> Diagnostic list option" where
  "getGlobalProjectErrors p =
     (if projectKind p = Configured
      then map_option (filter (\<lambda>diagnostic. diag_file diagnostic = None)) (projectErrors p)
      else Some [])"

subsection \<open>Project: the graph update\<close>

text \<open>
  The loop of \<^verbatim>\<open>updateGraphWorker\<close> over the source files of the old program: a file that
  the new program does not contain is detached from the project, when the project service
  knows a script info for it.
\<close>

definition detachFilesNotInProgram :: "Env \<Rightarrow> SourceFile list \<Rightarrow> Project \<Rightarrow> Project" where
  "detachFilesNotInProgram env oldSourceFiles p =
     foldl (\<lambda>q f.
        case program q of
          None \<Rightarrow> q
        | Some r \<Rightarrow>
            if getSourceFileByPath (programStore q r) (sf_path f) \<noteq> None then q
            else (case getScriptInfo env q (sf_fileName f) of
                    None \<Rightarrow> q
                  | Some scriptInfoToDetach \<Rightarrow>
                      logCall (DetachFromProject (si_fileName scriptInfoToDetach)) q))
       p oldSourceFiles"

text \<open>
  Modelled from the spec: \<^verbatim>\<open>updateMissingFilePathsWatch\<close> (compiler/utilities.ts) is not
  under src/. It reconciles the missing-files map against the missing-file paths of the
  new program: the watcher of each path that is no longer missing is closed with the
  reason NotNeeded (\<^verbatim>\<open>closeMissingFileWatcher\<close>), and a watcher is created for each newly
  missing path (\<^verbatim>\<open>addMissingFileWatcher\<close>).
\<close>

definition closeMissingFileWatcher ::
  "Path \<Rightarrow> FileWatcher \<Rightarrow> WatcherCloseReason \<Rightarrow> Project \<Rightarrow> Project" where
  "closeMissingFileWatcher missingFilePath fileWatcher reason p =
     logCall (CloseFileWatcher MissingFilePath missingFilePath fileWatcher reason) p"

definition addMissingFileWatcher :: "Env \<Rightarrow> Path \<Rightarrow> Project \<Rightarrow> FileWatcher \<times> Project" where
  "addMissingFileWatcher env missingFilePath p =
     (addFileWatcher env p MissingFilePath missingFilePath,
      logCall (AddFileWatcher MissingFilePath missingFilePath) p)"

definition updateMissingFilePathsWatch :: "Env \<Rightarrow> Project \<Rightarrow> Project" where
  "updateMissingFilePathsWatch env p =
     (let missing = (case program p of
                       None \<Rightarrow> []
                     | Some r \<Rightarrow> arrayToSet (missingFilePaths (programStore p r)));
          watches = (case missingFilesMap p of None \<Rightarrow> [] | Some m \<Rightarrow> m);
          p1 = foldl (\<lambda>q w. if fst w \<in> set missing then q
                              else closeMissingFileWatcher (fst w) (snd w) NotNeeded q)
                 p watches;
          kept = filter (\<lambda>w. fst w \<in> set missing) watches;
          p2 = p1\<lparr>missingFilesMap := Some kept\<rparr>
      in foldl (\<lambda>q missingFilePath.
            if missingFilePath \<in> fst ` set watches then q
            else let added = addMissingFileWatcher env missingFilePath q
                 in (snd added)\<lparr>missingFilesMap :=
                       Some ((case missingFilesMap (snd added) of None \<Rightarrow> [] | Some m \<Rightarrow> m)
                             @ [(missingFilePath, fst added)])\<rparr>)
          p2 missing)"

text \<open>
  \<^verbatim>\<open>getExternalFiles\<close>: the empty array for a project that is not configured; for a
  configured project the sorted concatenation of what the plugins report, where a plugin
  without the function is skipped and an exception is caught and logged.
\<close>

definition ConfiguredProject_getExternalFiles :: "Env \<Rightarrow> Project \<Rightarrow> string list \<times> Project" where
  "ConfiguredProject_getExternalFiles env p =
     (let r = foldl (\<lambda>acc plugin.
                case pluginGetExternalFiles env plugin (snd acc) of
                  NoGetExternalFiles \<Rightarrow> acc
                | GetExternalFilesThrows e \<Rightarrow>
                    (fst acc,
                     logCall (LoggerInfo (''A plugin threw an exception in getExternalFiles: '' @ e))
                       (logCall (CallPluginGetExternalFiles plugin) (snd acc)))
                | GetExternalFilesReturns None \<Rightarrow>
                    (fst acc, logCall (CallPluginGetExternalFiles plugin) (snd acc))
                | GetExternalFilesReturns (Some fs) \<Rightarrow>
                    (fst acc @ fs, logCall (CallPluginGetExternalFiles plugin) (snd acc)))
              ([], p) (plugins p)
      in (toSortedArray env (fst r), snd r))"

definition getExternalFiles :: "Env \<Rightarrow> Project \<Rightarrow> string list \<times> Project" where
  "getExternalFiles env p =
     (if projectKind p = Configured then ConfiguredProject_getExternalFiles env p else ([], p))"

text \<open>
  The last part of \<^verbatim>\<open>updateGraphWorker\<close>: the external files are computed again, a script
  info is created and attached for each inserted one, and the script info of each removed
  one is detached when the project service still knows it.
\<close>

definition updateExternalFiles :: "Env \<Rightarrow> Project \<Rightarrow> Project" where
  "updateExternalFiles env p =
     (let oldExternalFiles = (case externalFiles p of None \<Rightarrow> [] | Some fs \<Rightarrow> fs);
          r = getExternalFiles env p;
          p1 = (snd r)\<lparr>externalFiles := Some (fst r)\<rparr>
      in foldl (\<lambda>q change.
            case change of
              Inserted inserted \<Rightarrow>
                logCall (AttachToProject inserted) (logCall (GetOrCreateScriptInfo inserted) q)
            | Deleted removed \<Rightarrow>
                (case getScriptInfo env q removed of
                   None \<Rightarrow> q
                 | Some scriptInfoToDetach \<Rightarrow>
                     logCall (DetachFromProject (si_fileName scriptInfoToDetach)) q))
          p1 (enumerateInsertsAndDeletes env (fst r) oldExternalFiles))"

definition updateGraphWorker :: "Env \<Rightarrow> Project \<Rightarrow> Project \<times> bool" where
  "updateGraphWorker env p =
     (let oldProgram = program p;
          r = getProgram env p;
          p1 = (logCall GetProgram p)\<lparr>program := Some (fst r), programStore := snd r\<rparr>;
          hasChanges =
            (case oldProgram of
               None \<Rightarrow> True
             | Some old \<Rightarrow>
                 fst r \<noteq> old \<and>
                 toInt32 (structureIsReused (programStore p1 old))
                   AND StructureIsReused_value StructureIsReused_Completely = 0);
          p2 = (if hasChanges then
                  let q = (case oldProgram of
                             None \<Rightarrow> p1
                           | Some old \<Rightarrow>
                               detachFilesNotInProgram env (sourceFiles (programStore p1 old)) p1)
                  in updateMissingFilePathsWatch env q
                else p1);
          p3 = updateExternalFiles env p2
      in (p3, hasChanges))"

definition setTypings :: "string list option \<Rightarrow> Project \<Rightarrow> Project \<times> bool" where
  "setTypings typings p =
     (if arrayIsEqualTo (typingFiles p) typings then (p, False)
      else (markAsDirty (p\<lparr>typingFiles := typings\<rparr>), True))"

text \<open>The two loops of \<^verbatim>\<open>updateGraph\<close> over the changed files and over the source files.\<close>

definition removeChangedFiles :: "Path list \<Rightarrow> Project \<Rightarrow> Project" where
  "removeChangedFiles changedFiles p =
     foldl (\<lambda>q f. q\<lparr>cachedUnresolvedImportsPerFile :=
                       UnresolvedImportsMap_remove f (cachedUnresolvedImportsPerFile q)\<rparr>)
       p changedFiles"

definition extractAll :: "Env \<Rightarrow> SourceFile list \<Rightarrow> Project \<Rightarrow> Project \<times> string list" where
  "extractAll env files p =
     foldl (\<lambda>acc sourceFile.
              extractUnresolvedImportsFromSourceFile env sourceFile (snd acc) (fst acc))
       (p, []) files"

text \<open>
  \<^verbatim>\<open>updateGraph\<close> in two parts. The first part is the source up to the request to the
  typings cache (lines 613 to 641): the state, \<open>hasChanges\<close> of the first pass of the
  worker, and the typings that the cache answers.
\<close>

definition updateGraph_firstPass :: "Env \<Rightarrow> Project \<Rightarrow> Project \<times> bool \<times> string list option" where
  "updateGraph_firstPass env p =
     (let p1 = logCall CreateHasInvalidatedResolution
                 (logCall StartRecordingFilesWithChangedResolutions p);
          w1 = updateGraphWorker env p1;
          hasChanges = snd w1;
          changedFiles = (case finishRecordingFilesWithChangedResolutions env (fst w1) of
                            None \<Rightarrow> [] | Some fs \<Rightarrow> fs);
          p2 = logCall FinishRecordingFilesWithChangedResolutions (fst w1);
          p3 = removeChangedFiles changedFiles p2;
          p4 = (if hasChanges \<or> changedFiles \<noteq> [] then
                  let e = extractAll env (getSourceFiles p3) p3
                  in (fst e)\<lparr>lastCachedUnresolvedImportsList :=
                                Some (toDeduplicatedSortedArray env (snd e))\<rparr>
                else p3);
          unresolvedImports = lastCachedUnresolvedImportsList p4;
          cachedTypings = getTypingsForProject env p4 unresolvedImports hasChanges;
          p5 = logCall (GetTypingsForProject unresolvedImports hasChanges) p4
      in (p5, hasChanges, cachedTypings))"

definition Project_updateGraph :: "Env \<Rightarrow> Project \<Rightarrow> Project \<times> bool" where
  "Project_updateGraph env p =
     (let first = updateGraph_firstPass env p;
          hasChanges = fst (snd first);
          t = setTypings (snd (snd first)) (fst first);
          w2 = (if snd t
                then let w = updateGraphWorker env (fst t) in (fst w, snd w \<or> hasChanges)
                else (fst t, hasChanges));
          p6 = fst w2;
          hasChanges = snd w2;
          p7 = (case builder p6 of
                  None \<Rightarrow> p6
                | Some b \<Rightarrow>
                    if languageServiceEnabled p6 then logCall BuilderOnProgramUpdateGraph p6
                    else logCall BuilderClear p6);
          p8 = (if hasChanges
                then p7\<lparr>projectStructureVersion := projectStructureVersion p7 + 1\<rparr>
                else p7)
      in (p8, \<not> hasChanges))"

subsection \<open>ConfiguredProject\<close>

definition ConfiguredProject_updateGraph :: "Env \<Rightarrow> Project \<Rightarrow> Project \<times> bool" where
  "ConfiguredProject_updateGraph env p =
     (if pendingReload p then
        let p1 = p\<lparr>pendingReload := False\<rparr>;
            p2 = reloadConfiguredProject env (logCall ReloadConfiguredProject p1)
        in (p2, True)
      else Project_updateGraph env p)"

text \<open>The call \<^verbatim>\<open>this.updateGraph()\<close> dispatches on the class of the project.\<close>

definition updateGraph :: "Env \<Rightarrow> Project \<Rightarrow> Project \<times> bool" where
  "updateGraph env p =
     (if projectKind p = Configured then ConfiguredProject_updateGraph env p
      else Project_updateGraph env p)"

text \<open>
  The body of the \<^verbatim>\<open>try\<close> block of \<^verbatim>\<open>enableProxy\<close>: \<open>Inl (e, q)\<close> when the exception
  \<open>e\<close> is thrown in the state \<open>q\<close>, \<open>Inr q\<close> when the block completes (or returns) in the
  state \<open>q\<close>. The create info also refers to the project, its host and the server host.
\<close>

definition enableProxy_try ::
  "Env \<Rightarrow> ModuleValue \<Rightarrow> PluginImport \<Rightarrow> Project \<Rightarrow> Exception \<times> Project + Project" where
  "enableProxy_try env pluginModuleFactory configEntry p =
     (case pluginModuleFactory of
        NotAFunction \<Rightarrow>
          Inr (logCall (LoggerInfo (''Skipped loading plugin '' @ pi_name configEntry @
                 '' because it did expose a proper factory function'')) p)
      | FactoryFunction factory \<Rightarrow>
          let info = \<lparr>pci_config = configEntry, pci_languageService = languageService p\<rparr>;
              p1 = logCall (CallPluginFactory factory) p
          in case callPluginModuleFactory env factory of
               Inl e \<Rightarrow> Inl (e, p1)
             | Inr pluginModule \<Rightarrow>
                 let p2 = logCall (CallPluginCreate pluginModule info) p1
                 in case pluginCreate env pluginModule info of
                      Inl e \<Rightarrow> Inl (e, p2)
                    | Inr service \<Rightarrow>
                        Inr (p2\<lparr>languageService := service,
                                plugins := plugins p2 @ [pluginModule]\<rparr>))"

definition enableProxy :: "Env \<Rightarrow> ModuleValue \<Rightarrow> PluginImport \<Rightarrow> Project \<Rightarrow> Project" where
  "enableProxy env pluginModuleFactory configEntry p =
     (case enableProxy_try env pluginModuleFactory configEntry p of
        Inr q \<Rightarrow> q
      | Inl (e, q) \<Rightarrow> logCall (LoggerInfo (''Plugin activation failed: '' @ e)) q)"

text \<open>
  \<^verbatim>\<open>Project.resolveModule\<close>: the module that the host loads from the directory, or nothing
  (with the failure logged).
\<close>

definition resolveModule ::
  "Env \<Rightarrow> (string \<Rightarrow> string \<Rightarrow> RequireResult) \<Rightarrow> string \<Rightarrow> string \<Rightarrow> Project \<Rightarrow>
   ModuleValue option \<times> Project" where
  "resolveModule env require moduleName initialDir p =
     (let resolvedPath =
            normalizeSlashes env (hostResolvePath env (combinePaths env initialDir ''node_modules''));
          p1 = logCall (LoggerInfo (''Loading '' @ moduleName @ '' from '' @ initialDir @
                 '' (resolved to '' @ resolvedPath @ '')'')) p;
          result = require resolvedPath moduleName
      in case rr_error result of
           Some err \<Rightarrow>
             (None, logCall (LoggerInfo (''Failed to load module '' @ [CHR 0x27] @ moduleName @
                      [CHR 0x27] @ '': '' @ err)) p1)
         | None \<Rightarrow> (rr_module result, p1))"

text \<open>\<^verbatim>\<open>searchPaths.join(",")\<close>.\<close>

fun joinWithComma :: "string list \<Rightarrow> string" where
  "joinWithComma [] = []"
| "joinWithComma [x] = x"
| "joinWithComma (x # y # ys) = x @ '','' @ joinWithComma (y # ys)"

text \<open>
  \<^verbatim>\<open>enablePlugin\<close>: the search paths are tried in order, and the first module found is
  handed to \<^verbatim>\<open>enableProxy\<close>.
\<close>

fun enablePluginLoop ::
  "Env \<Rightarrow> (string \<Rightarrow> string \<Rightarrow> RequireResult) \<Rightarrow> PluginImport \<Rightarrow> string list \<Rightarrow>
   string list \<Rightarrow> Project \<Rightarrow> Project" where
  "enablePluginLoop env require pluginConfigEntry searchPaths [] p =
     logCall (LoggerInfo (''Couldn'' @ [CHR 0x27] @ ''t find '' @ pi_name pluginConfigEntry @
       '' anywhere in paths: '' @ joinWithComma searchPaths)) p"
| "enablePluginLoop env require pluginConfigEntry searchPaths (searchPath # rest) p =
     (let r = resolveModule env require (pi_name pluginConfigEntry) searchPath p
      in case fst r of
           Some resolvedModule \<Rightarrow> enableProxy env resolvedModule pluginConfigEntry (snd r)
         | None \<Rightarrow> enablePluginLoop env require pluginConfigEntry searchPaths rest (snd r))"

definition enablePlugin ::
  "Env \<Rightarrow> (string \<Rightarrow> string \<Rightarrow> RequireResult) \<Rightarrow> PluginImport \<Rightarrow> string list \<Rightarrow>
   Project \<Rightarrow> Project" where
  "enablePlugin env require pluginConfigEntry searchPaths p =
     enablePluginLoop env require pluginConfigEntry searchPaths searchPaths p"

text \<open>
  \<^verbatim>\<open>enablePlugins\<close>. The canonical path of the config file is the canonical form of the
  project name, which the constructor of a configured project sets to the config file
  name.
\<close>

definition enablePlugins :: "Env \<Rightarrow> Project \<Rightarrow> Project" where
  "enablePlugins env p =
     (let options = optionsStore p (getCompilerOptions p)
      in case hostRequire env of
           None \<Rightarrow>
             logCall (LoggerInfo (''Plugins were requested but not running in environment that supports ''
               @ [CHR 0x27] @ ''require'' @ [CHR 0x27] @ ''. Nothing will be loaded'')) p
         | Some require \<Rightarrow>
             let searchPaths0 =
                   combinePaths env (getExecutingFilePath env) ''../../..'' # pluginProbeLocations env;
                 local = getDirectoryPath env (toCanonicalFileName env (projectName p));
                 p1 = (if allowLocalPluginLoads env
                       then logCall (LoggerInfo (''Local plugin loading enabled; adding '' @ local @
                              '' to search paths'')) p
                       else p);
                 searchPaths = (if allowLocalPluginLoads env then local # searchPaths0 else searchPaths0);
                 p2 = (case co_plugins options of
                         None \<Rightarrow> p1
                       | Some entries \<Rightarrow>
                           foldl (\<lambda>q pluginConfigEntry. enablePlugin env require pluginConfigEntry searchPaths q)
                             p1 entries)
             in case globalPlugins env of
                  None \<Rightarrow> p2
                | Some names \<Rightarrow>
                    foldl (\<lambda>q globalPluginName.
                       if (case co_plugins options of
                             None \<Rightarrow> False
                           | Some entries \<Rightarrow> list_ex (\<lambda>entry. pi_name entry = globalPluginName) entries)
                       then q
                       else enablePlugin env require
                              \<lparr>pi_name = globalPluginName, pi_global = Some True\<rparr> searchPaths q)
                      p2 names)"

definition ConfiguredProject_constructor ::
  "Env \<Rightarrow> NormalizedPath \<Rightarrow> bool \<Rightarrow> OptionsRef option \<Rightarrow> bool \<Rightarrow>
   (OptionsRef \<Rightarrow> CompilerOptions) \<Rightarrow> nat \<Rightarrow> (ProgramRef \<Rightarrow> Program) \<Rightarrow> Project" where
  "ConfiguredProject_constructor env configFileName hasExplicitListOfFiles compilerOptionsArg
       languageServiceEnabledArg store next progs =
     enablePlugins env
       (Project_constructor env configFileName Configured hasExplicitListOfFiles
          languageServiceEnabledArg compilerOptionsArg store next progs)"

subsection \<open>Project: reporting changes\<close>

record ProjectVersionInfo =
  info_projectName :: string
  info_version :: nat
  info_isInferred :: bool
  info_options :: OptionsRef
  info_languageServiceDisabled :: bool

record ProjectChanges =
  added :: "string list"
  removed :: "string list"
  updated :: "string list"

text \<open>The answer of \<^verbatim>\<open>getChangesSinceVersion\<close>; an absent property is \<open>None\<close>.\<close>

record ProjectFilesWithTSDiagnostics =
  r_info :: ProjectVersionInfo
  r_files :: "string list option"
  r_changes :: "ProjectChanges option"
  r_projectErrors :: "Diagnostic list option"

definition getChangesSinceVersion ::
  "Env \<Rightarrow> nat option \<Rightarrow> Project \<Rightarrow> Project \<times> ProjectFilesWithTSDiagnostics" where
  "getChangesSinceVersion env lastKnownVersion p0 =
     (let p1 = fst (updateGraph env p0);
          info = \<lparr>info_projectName = getProjectName p1,
                  info_version = projectStructureVersion p1,
                  info_isInferred = (projectKind p1 = Inferred),
                  info_options = getCompilerOptions p1,
                  info_languageServiceDisabled = (\<not> languageServiceEnabled p1)\<rparr>;
          updatedFileNames' = updatedFileNames p1;
          p = p1\<lparr>updatedFileNames := None\<rparr>
      in if lastReportedFileNames p \<noteq> None \<and> lastKnownVersion = Some (lastReportedVersion p) then
           if projectStructureVersion p = lastReportedVersion p \<and> updatedFileNames' = None then
             (p, \<lparr>r_info = info, r_files = None, r_changes = None,
                  r_projectErrors = getGlobalProjectErrors p\<rparr>)
           else
             let lastReportedFileNames' =
                   (case lastReportedFileNames p of None \<Rightarrow> [] | Some names \<Rightarrow> names);
                 currentFiles = arrayToSet (getFileNames env False False p);
                 updated' = (case updatedFileNames' of None \<Rightarrow> [] | Some names \<Rightarrow> names);
                 added' = filter (\<lambda>id. id \<notin> set lastReportedFileNames') currentFiles;
                 removed' = filter (\<lambda>id. id \<notin> set currentFiles) lastReportedFileNames';
                 q = p\<lparr>lastReportedFileNames := Some currentFiles,
                       lastReportedVersion := projectStructureVersion p\<rparr>
             in (q, \<lparr>r_info = info, r_files = None,
                     r_changes = Some \<lparr>added = added', removed = removed', updated = updated'\<rparr>,
                     r_projectErrors = getGlobalProjectErrors q\<rparr>)
         else
           let projectFileNames = getFileNames env False False p;
               q = p\<lparr>lastReportedFileNames := Some (arrayToSet projectFileNames),
                     lastReportedVersion := projectStructureVersion p\<rparr>
           in (q, \<lparr>r_info = info, r_files = Some projectFileNames, r_changes = None,
                   r_projectErrors = getGlobalProjectErrors q\<rparr>))"

section \<open>The specification's words\<close>

subsection \<open>Package prefixes (specification, section 4.3)\<close>

text \<open>
  The segment of a string before its first slash, and the rest after that slash (empty
  when there is none).
\<close>

definition firstSegment :: "string \<Rightarrow> string" where
  "firstSegment s = takeWhile (\<lambda>c. c \<noteq> CHR ''/'') s"

definition afterFirstSlash :: "string \<Rightarrow> string" where
  "afterFirstSlash s = drop 1 (dropWhile (\<lambda>c. c \<noteq> CHR ''/'') s)"

text \<open>A name is scoped when its first character is \<^verbatim>\<open>@\<close>.\<close>

definition isScoped :: "string \<Rightarrow> bool" where
  "isScoped s = (case s of [] \<Rightarrow> False | c # cs \<Rightarrow> c = CHR ''@'')"

text \<open>
  The package prefix: for a bare name the segment before the first slash, for a scoped name
  the segment before the second slash.
\<close>

definition specPackagePrefix :: "string \<Rightarrow> string" where
  "specPackagePrefix s =
     (if isScoped s \<and> CHR ''/'' \<in> set s
      then firstSegment s @ ''/'' @ firstSegment (afterFirstSlash s)
      else firstSegment s)"

text \<open>
  The unresolved imports of a source file: the specifiers of its \<open>resolvedModules\<close> whose
  resolution failed and which are not relative, each trimmed and cut to its package prefix.
\<close>

definition specUnresolvedImports :: "Env \<Rightarrow> SourceFile \<Rightarrow> string list" where
  "specUnresolvedImports env sourceFile =
     map (\<lambda>entry. specPackagePrefix (trim (fst entry)))
       (filter (\<lambda>entry. snd entry = None \<and> \<not> isExternalModuleNameRelative env (fst entry))
          (case resolvedModules sourceFile of None \<Rightarrow> [] | Some entries \<Rightarrow> entries))"

subsection \<open>Change detection (specification, section 4.2, step 2b)\<close>

text \<open>
  There is no previous program, or the new snapshot differs from the old one and the
  structure-reuse flag of the old program is less than Completely.
\<close>

definition specHasChanges ::
  "ProgramRef option \<Rightarrow> ProgramRef \<Rightarrow> (ProgramRef \<Rightarrow> Program) \<Rightarrow> bool" where
  "specHasChanges oldProgram newProgram store =
     (case oldProgram of
        None \<Rightarrow> True
      | Some old \<Rightarrow>
          newProgram \<noteq> old \<and>
          toInt32 (structureIsReused (store old)) < StructureIsReused_value StructureIsReused_Completely)"

subsection \<open>Sequences of operations that touch the unresolved-imports index\<close>

datatype ProjectOperation =
    OpRemoveFile ScriptInfo bool
  | OpUpdateGraph
  | OpSetCompilerOptions "OptionsRef option"

text \<open>
  \<^verbatim>\<open>setCompilerOptions\<close> is overridden by \<^verbatim>\<open>InferredProject\<close>; the graph update is the one
  of the base class.
\<close>

definition applyOperation :: "Env \<Rightarrow> Project \<Rightarrow> ProjectOperation \<Rightarrow> Project" where
  "applyOperation env p operation =
     (case operation of
        OpRemoveFile info detachFromProject \<Rightarrow> removeFile env info detachFromProject p
      | OpUpdateGraph \<Rightarrow> fst (Project_updateGraph env p)
      | OpSetCompilerOptions options \<Rightarrow>
          if projectKind p = Inferred then InferredProject_setCompilerOptions env options p
          else Project_setCompilerOptions env options p)"

definition indexVersion :: "Project \<Rightarrow> nat" where
  "indexVersion p = UnresolvedImportsMap_getVersion (cachedUnresolvedImportsPerFile p)"

text \<open>
  The answer of the test \<^verbatim>\<open>changesAffectModuleResolution(this.compilerOptions, compilerOptions)\<close>
  that guards the clear of the index in \<^verbatim>\<open>Project.setCompilerOptions\<close>, in the state in which
  the method is called. The test is made after \<^verbatim>\<open>allowNonTsExtensions\<close> is set; without options
  it is not reached.
\<close>

definition Project_setCompilerOptions_affectsResolution ::
  "Env \<Rightarrow> OptionsRef option \<Rightarrow> Project \<Rightarrow> bool" where
  "Project_setCompilerOptions_affectsResolution env compilerOptionsArg p =
     (case compilerOptionsArg of
        None \<Rightarrow> False
      | Some r \<Rightarrow>
          let p1 = updateOptions r (\<lambda>opts. opts\<lparr>allowNonTsExtensions := Some True\<rparr>) p
          in changesAffectModuleResolution env
               (optionsStore p1 (compilerOptions p1)) (optionsStore p1 r))"

text \<open>
  The answer of the same test when it is reached through \<^verbatim>\<open>InferredProject.setCompilerOptions\<close>:
  the base method is called on the clone (or, without options, on the options of the project)
  after \<^verbatim>\<open>maxNodeModuleJsDepth\<close> and \<^verbatim>\<open>allowJs\<close> are set.
\<close>

definition InferredProject_setCompilerOptions_affectsResolution ::
  "Env \<Rightarrow> OptionsRef option \<Rightarrow> Project \<Rightarrow> bool" where
  "InferredProject_setCompilerOptions_affectsResolution env options p =
     (let cloned = (case options of
                      Some r \<Rightarrow> cloneCompilerOptions r p
                    | None \<Rightarrow> (getCompilerOptions p, p));
          newOptions = fst cloned;
          p1 = snd cloned;
          p2 = (if isJsInferredProject p1 \<and> maxNodeModuleJsDepth (optionsStore p1 newOptions) = None
                then updateOptions newOptions (\<lambda>opts. opts\<lparr>maxNodeModuleJsDepth := Some 2\<rparr>) p1
                else if \<not> isJsInferredProject p1
                then updateOptions newOptions (\<lambda>opts. opts\<lparr>maxNodeModuleJsDepth := None\<rparr>) p1
                else p1);
          p3 = updateOptions newOptions (\<lambda>opts. opts\<lparr>allowJs := Some True\<rparr>) p2
      in Project_setCompilerOptions_affectsResolution env (Some newOptions) p3)"

text \<open>
  \<^verbatim>\<open>removeFile\<close> reaches the test only when the file is a root of an inferred project for
  JavaScript, the file is a JavaScript file and no JavaScript root remains: then
  \<^verbatim>\<open>removeRoot\<close> switches the project back with \<^verbatim>\<open>toggleJsInferredProject(false)\<close>, which
  calls \<^verbatim>\<open>setCompilerOptions()\<close>.
\<close>

definition removeFile_affectsResolution :: "Env \<Rightarrow> ScriptInfo \<Rightarrow> Project \<Rightarrow> bool" where
  "removeFile_affectsResolution env info p =
     (if isRoot p info \<and> projectKind p = Inferred then
        let p1 = logCall (StopWatchingConfigFilesForInferredProjectRoot (si_path info) NotNeeded) p;
            p2 = Project_removeRoot info p1
        in if isJsInferredProject p2 \<and> si_isJavaScript info
           then if list_all (\<lambda>rootInfo. \<not> si_isJavaScript rootInfo) (getRootScriptInfos p2)
                then InferredProject_setCompilerOptions_affectsResolution env None
                       (p2\<lparr>isJsInferredProject := False\<rparr>)
                else False
           else False
      else False)"

text \<open>
  Whether an operation, made in the state \<open>p\<close>, changes the compiler options in a way that
  affects module resolution. The graph update never changes the compiler options.
\<close>

definition operationAffectsResolution :: "Env \<Rightarrow> Project \<Rightarrow> ProjectOperation \<Rightarrow> bool" where
  "operationAffectsResolution env p operation =
     (case operation of
        OpRemoveFile info detachFromProject \<Rightarrow> removeFile_affectsResolution env info p
      | OpUpdateGraph \<Rightarrow> False
      | OpSetCompilerOptions options \<Rightarrow>
          if projectKind p = Inferred
          then InferredProject_setCompilerOptions_affectsResolution env options p
          else Project_setCompilerOptions_affectsResolution env options p)"

text \<open>
  No operation of the sequence, each made in the state that the operations before it have
  left, changes the compiler options in a way that affects module resolution.
\<close>

fun noStepAffectsResolution :: "Env \<Rightarrow> Project \<Rightarrow> ProjectOperation list \<Rightarrow> bool" where
  "noStepAffectsResolution env p [] = True"
| "noStepAffectsResolution env p (operation # operations) =
     (if operationAffectsResolution env p operation then False
      else noStepAffectsResolution env (applyOperation env p operation) operations)"

text \<open>The number of passes of the graph worker so far: each pass asks for the program once.\<close>

definition workerPasses :: "Project \<Rightarrow> nat" where
  "workerPasses p = count_list (calls p) GetProgram"

subsection \<open>Frames\<close>

text \<open>
  The bookkeeping steps of the graph worker change the external files, the missing-files
  map and the trace only, and never ask for a program. The refresh of the unresolved
  imports changes the index only, and its version does not decrease.
\<close>

definition logsOnly :: "Project \<Rightarrow> Project \<Rightarrow> bool" where
  "logsOnly p q =
     (\<exists>cs m e. q = p\<lparr>externalFiles := e, missingFilesMap := m, calls := calls p @ cs\<rparr> \<and>
        GetProgram \<notin> set cs)"

definition indexOnly :: "Project \<Rightarrow> Project \<Rightarrow> bool" where
  "indexOnly p q =
     (\<exists>m. q = p\<lparr>cachedUnresolvedImportsPerFile := m\<rparr> \<and>
        version (cachedUnresolvedImportsPerFile p) \<le> version m)"

section \<open>A concrete environment and concrete projects\<close>

text \<open>
  Modelled from the spec: \<^verbatim>\<open>isExternalModuleNameRelative\<close> (compiler/core.ts) is not under
  src/. A specifier is a relative path when its first term is \<^verbatim>\<open>.\<close> or \<^verbatim>\<open>..\<close>.
\<close>

definition isDirectorySeparator :: "char \<Rightarrow> bool" where
  "isDirectorySeparator c = (c = CHR ''/'' \<or> c = CHR 0x5C)"

fun moduleNameIsRelative :: "string \<Rightarrow> bool" where
  "moduleNameIsRelative (c1 # c2 # c3 # cs) =
     (c1 = CHR ''.'' \<and> (isDirectorySeparator c2 \<or> (c2 = CHR ''.'' \<and> isDirectorySeparator c3)))"
| "moduleNameIsRelative [c1, c2] = (c1 = CHR ''.'' \<and> (isDirectorySeparator c2 \<or> c2 = CHR ''.''))"
| "moduleNameIsRelative [c1] = (c1 = CHR ''.'')"
| "moduleNameIsRelative [] = False"

text \<open>
  Modelled from the spec: \<^verbatim>\<open>enumerateInsertsAndDeletes\<close> (compiler/core.ts) is not under
  src/. It is the merge-diff over two sorted sequences.
\<close>

fun mergeDiff :: "string list \<Rightarrow> string list \<Rightarrow> InsertOrDelete list" where
  "mergeDiff [] oldItems = map Deleted oldItems"
| "mergeDiff (n # ns) [] = map Inserted (n # ns)"
| "mergeDiff (n # ns) (x # xs) =
     (if n < x then Inserted n # mergeDiff ns (x # xs)
      else if x < n then Deleted x # mergeDiff (n # ns) xs
      else mergeDiff ns xs)"

definition exampleOptions :: CompilerOptions where
  "exampleOptions =
     \<lparr>allowNonTsExtensions = None, allowJs = None, maxNodeModuleJsDepth = None,
      noEmitForJsFiles = None, co_plugins = None, otherOptions = []\<rparr>"

definition exampleProgram :: Program where
  "exampleProgram =
     \<lparr>sourceFiles = [], structureIsReused = None, configFile = None, missingFilePaths = []\<rparr>"

text \<open>
  In the example environment the engine always answers the program 1, the module resolution
  settings are among the other options, the plugin factory \<open>f\<close> makes the plugin \<open>f\<close>, the
  plugin 1 throws from \<^verbatim>\<open>create\<close>, and any other plugin \<open>m\<close> answers the service
  \<open>100 * m + s\<close> when it is created over the service \<open>s\<close>. The host finds the module
  \<^verbatim>\<open>P1\<close> (the factory 1) and the module \<^verbatim>\<open>P2\<close> (the factory 2).
\<close>

definition exampleEnv :: Env where
  "exampleEnv =
     \<lparr>getProgram = (\<lambda>p. (1, programStore p)),
      finishRecordingFilesWithChangedResolutions = (\<lambda>p. None),
      getTypingsForProject = (\<lambda>p unresolvedImports hasChanges. Some []),
      getScriptInfo = (\<lambda>p fileName. None),
      addFileWatcher = (\<lambda>p watchType path. 0),
      reloadConfiguredProject = (\<lambda>p. p),
      toDeduplicatedSortedArray = (\<lambda>xs. sort (remdups xs)),
      toSortedArray = sort,
      enumerateInsertsAndDeletes = mergeDiff,
      isExternalModuleNameRelative = moduleNameIsRelative,
      changesAffectModuleResolution = (\<lambda>oldOptions newOptions. otherOptions oldOptions \<noteq> otherOptions newOptions),
      getDefaultLibFilePath = (\<lambda>options. ''/ts/lib/lib.d.ts''),
      getDefaultCompilerOptions = exampleOptions,
      createLanguageService = 0,
      combinePaths = (\<lambda>a b. a @ ''/'' @ b),
      normalizeSlashes = (\<lambda>s. s),
      getDirectoryPath = firstSegment,
      toCanonicalFileName = (\<lambda>s. s),
      callPluginModuleFactory = (\<lambda>factory. Inr factory),
      pluginCreate = (\<lambda>pluginModule info.
         if pluginModule = 1 then Inl ''Error: P1''
         else Inr (100 * pluginModule + pci_languageService info)),
      pluginGetExternalFiles = (\<lambda>pluginModule p. NoGetExternalFiles),
      hostRequire = Some (\<lambda>resolvedPath moduleName.
         \<lparr>rr_module = (if moduleName = ''P1'' then Some (FactoryFunction 1)
                        else if moduleName = ''P2'' then Some (FactoryFunction 2)
                        else None),
          rr_error = None\<rparr>),
      hostResolvePath = (\<lambda>s. s),
      getExecutingFilePath = ''/ts/lib/tsserver.js'',
      pluginProbeLocations = [],
      allowLocalPluginLoads = False,
      globalPlugins = None\<rparr>"

text \<open>
  The stores of the examples: the options 0 are empty, the options 1 ask for a module
  resolution of their own, the options 2 set \<^verbatim>\<open>maxNodeModuleJsDepth\<close> to 5, and the options 3
  list the plugins \<^verbatim>\<open>P1\<close> and \<^verbatim>\<open>P2\<close>.
\<close>

definition exampleStore :: "OptionsRef \<Rightarrow> CompilerOptions" where
  "exampleStore =
     (\<lambda>r. exampleOptions)
       (1 := exampleOptions\<lparr>otherOptions := [(''moduleResolution'', ''classic'')]\<rparr>,
        2 := exampleOptions\<lparr>maxNodeModuleJsDepth := Some 5\<rparr>,
        3 := exampleOptions\<lparr>co_plugins :=
               Some [\<lparr>pi_name = ''P1'', pi_global = None\<rparr>, \<lparr>pi_name = ''P2'', pi_global = None\<rparr>]\<rparr>)"

definition exampleProject :: Project where
  "exampleProject =
     Project_constructor exampleEnv ''project'' External True True (Some 0)
       exampleStore 4 (\<lambda>r. exampleProgram)"

definition exampleInferredProject :: Project where
  "exampleInferredProject =
     Project_constructor exampleEnv ''/dev/null/inferredProject1*'' Inferred False True (Some 0)
       exampleStore 4 (\<lambda>r. exampleProgram)"

definition exampleConfiguredProject :: Project where
  "exampleConfiguredProject =
     ConfiguredProject_constructor exampleEnv ''/a/tsconfig.json'' False (Some 3) True
       exampleStore 4 (\<lambda>r. exampleProgram)"

definition exampleScriptInfo :: ScriptInfo where
  "exampleScriptInfo = \<lparr>si_path = ''/a/b.ts'', si_fileName = ''/a/b.ts'', si_isJavaScript = False\<rparr>"

text \<open>The source file of the third scenario of the specification.\<close>

definition exampleSourceFile :: SourceFile where
  "exampleSourceFile =
     \<lparr>sf_path = ''/a/a.ts'', sf_fileName = ''/a/a.ts'',
      resolvedModules = Some [(''@scope/pkg/sub'', None), (''./rel'', None)],
      sf_fromExternalLibrary = False\<rparr>"

section \<open>Unfolding the definitions of the examples\<close>

text \<open>The equations that evaluate the string functions and the example projects.\<close>

lemmas string_eval =
  unresolvedImportName_def trim_def isWhiteSpaceLike_def indexOf_def charCodeAt_def
  CharacterCodes_at_def substr_def Let_def

lemmas example_eval =
  exampleEnv_def exampleProject_def Project_constructor_def exampleStore_def exampleOptions_def
  exampleProgram_def setInternalCompilerOptionsForEmittingJsFiles_def updateOptions_def
  logCall_def markAsDirty_def truthy_def UnresolvedImportsMap_new_def
  UnresolvedImportsMap_get_def UnresolvedImportsMap_set_def exampleSourceFile_def
  specUnresolvedImports_def specPackagePrefix_def firstSegment_def afterFirstSlash_def
  isScoped_def isDirectorySeparator_def

lemmas project_eval =
  exampleEnv_def exampleProject_def exampleInferredProject_def Project_constructor_def
  exampleStore_def exampleOptions_def exampleProgram_def
  setInternalCompilerOptionsForEmittingJsFiles_def updateOptions_def
  logCall_def markAsDirty_def truthy_def UnresolvedImportsMap_new_def

section \<open>Unresolved imports: claims C3 and C6\<close>

subsection \<open>The package prefix computed by the source is the one of the specification\<close>

lemma indexOfAux_eq:
  "indexOfAux xs c n =
     (if c \<in> set xs then int (n + length (takeWhile (\<lambda>x. x \<noteq> c) xs)) else - 1)"
  by (induction xs arbitrary: n) auto

lemma indexOf_eq:
  "indexOf s c k =
     (if c \<in> set (drop k s) then int (k + length (takeWhile (\<lambda>x. x \<noteq> c) (drop k s))) else - 1)"
proof (cases "k < length s")
  case True
  then show ?thesis by (simp add: indexOf_def indexOfAux_eq min_def)
next
  case False
  then show ?thesis by (simp add: indexOf_def)
qed

lemma charCodeAt_0: "charCodeAt s 0 = Some CharacterCodes_at \<longleftrightarrow> isScoped s"
  by (cases s) (auto simp: charCodeAt_def CharacterCodes_at_def isScoped_def)

lemma split_at_slash:
  assumes "CHR ''/'' \<in> set s"
  shows "s = firstSegment s @ ''/'' @ afterFirstSlash s"
proof -
  have "dropWhile (\<lambda>c. c \<noteq> CHR ''/'') s \<noteq> []" using assms by (simp add: dropWhile_eq_Nil_conv)
  moreover have "hd (dropWhile (\<lambda>c. c \<noteq> CHR ''/'') s) = CHR ''/''"
    using assms hd_dropWhile[of "\<lambda>c. c \<noteq> CHR ''/''" s] calculation by auto
  ultimately have "dropWhile (\<lambda>c. c \<noteq> CHR ''/'') s = CHR ''/'' # afterFirstSlash s"
    by (cases "dropWhile (\<lambda>c. c \<noteq> CHR ''/'') s") (auto simp: afterFirstSlash_def)
  then show ?thesis
    using takeWhile_dropWhile_id[of "\<lambda>c. c \<noteq> CHR ''/''" s] by (simp add: firstSegment_def)
qed

lemma drop_after_first:
  assumes "CHR ''/'' \<in> set s"
  shows "drop (Suc (length (firstSegment s))) s = afterFirstSlash s"
proof -
  have "drop (Suc (length (firstSegment s))) (firstSegment s @ ''/'' @ afterFirstSlash s) = afterFirstSlash s"
    by simp
  moreover have "drop (Suc (length (firstSegment s))) s =
      drop (Suc (length (firstSegment s))) (firstSegment s @ ''/'' @ afterFirstSlash s)"
    by (rule arg_cong[OF split_at_slash[OF assms]])
  ultimately show ?thesis by (rule trans[rotated])
qed

lemma take_firstSegment: "take (length (firstSegment s)) s = firstSegment s"
  by (simp add: firstSegment_def takeWhile_eq_take[symmetric])

lemma firstSegment_no_slash: "CHR ''/'' \<notin> set s \<Longrightarrow> firstSegment s = s"
  by (auto simp: firstSegment_def takeWhile_eq_all_conv)

lemma unresolvedImportName_refines: "unresolvedImportName name = specPackagePrefix (trim name)"
proof -
  define t where "t = trim name"
  define n where "n = length (firstSegment t)"
  show ?thesis
  proof (cases "CHR ''/'' \<in> set t")
    case False
    then show ?thesis
      by (simp add: unresolvedImportName_def specPackagePrefix_def indexOf_eq Let_def
          firstSegment_no_slash t_def[symmetric])
  next
    case slash: True
    have i1: "indexOf t CHR ''/'' 0 = int n"
      using slash by (simp add: indexOf_eq n_def firstSegment_def)
    show ?thesis
    proof (cases "isScoped t")
      case False
      then show ?thesis
        using slash i1
        by (simp add: unresolvedImportName_def specPackagePrefix_def Let_def charCodeAt_0
            t_def[symmetric] substr_def n_def take_firstSegment)
    next
      case scoped: True
      have dr: "drop (Suc n) t = afterFirstSlash t"
        using drop_after_first[OF slash] by (simp add: n_def)
      have tsplit: "t = firstSegment t @ ''/'' @ afterFirstSlash t"
        by (rule split_at_slash[OF slash])
      show ?thesis
      proof (cases "CHR ''/'' \<in> set (afterFirstSlash t)")
        case False
        then have "indexOf t CHR ''/'' (Suc n) = - 1" by (simp add: indexOf_eq dr)
        then show ?thesis
          using slash scoped i1 False tsplit
          by (simp add: unresolvedImportName_def specPackagePrefix_def Let_def charCodeAt_0
              t_def[symmetric] nat_add_distrib firstSegment_no_slash)
      next
        case True
        define m where "m = length (firstSegment (afterFirstSlash t))"
        have i2: "indexOf t CHR ''/'' (Suc n) = int (Suc n + m)"
          using True by (simp add: indexOf_eq dr m_def firstSegment_def)
        have "take (Suc n + m) (firstSegment t @ ''/'' @ afterFirstSlash t)
                = firstSegment t @ ''/'' @ firstSegment (afterFirstSlash t)"
          by (simp add: n_def m_def take_firstSegment)
        moreover have "take (Suc n + m) t = take (Suc n + m) (firstSegment t @ ''/'' @ afterFirstSlash t)"
          by (rule arg_cong[OF tsplit])
        ultimately have "take (Suc n + m) t = firstSegment t @ ''/'' @ firstSegment (afterFirstSlash t)"
          by (rule trans[rotated])
        then show ?thesis
          using slash scoped i1 i2
          by (simp add: unresolvedImportName_def specPackagePrefix_def Let_def charCodeAt_0
              t_def[symmetric] nat_add_distrib substr_def)
      qed
    qed
  qed
qed

lemma count_firstSegment: "count_list (firstSegment s) CHR ''/'' = 0"
  by (auto simp: firstSegment_def count_list_0_iff dest: set_takeWhileD)

lemma count_specPackagePrefix:
  "count_list (specPackagePrefix s) CHR ''/'' = (if isScoped s \<and> CHR ''/'' \<in> set s then 1 else 0)"
  by (simp add: specPackagePrefix_def count_firstSegment)


lemma unresolvedImportsCallback_step:
  "unresolvedImportsCallback env (u, result) (name, r) =
     (if r = None \<and> \<not> isExternalModuleNameRelative env name
      then (Some ((case u of None \<Rightarrow> [] | Some v \<Rightarrow> v) @ [unresolvedImportName name]),
            result @ [unresolvedImportName name])
      else (u, result))"
  by (simp add: unresolvedImportsCallback_def Let_def)

lemma foldl_unresolvedImportsCallback:
  "foldl (unresolvedImportsCallback env) (u, result) entries =
     (let names = map (\<lambda>entry. unresolvedImportName (fst entry))
            (filter (\<lambda>entry. snd entry = None \<and> \<not> isExternalModuleNameRelative env (fst entry)) entries)
      in (if names = [] then u else Some ((case u of None \<Rightarrow> [] | Some v \<Rightarrow> v) @ names),
          result @ names))"
proof (induction entries arbitrary: u result)
  case Nil
  then show ?case by simp
next
  case (Cons entry entries)
  show ?case
    by (cases entry) (simp add: Cons.IH unresolvedImportsCallback_step Let_def)
qed

lemma extract_miss:
  assumes "UnresolvedImportsMap_get (cachedUnresolvedImportsPerFile p) (sf_path f) = None"
  shows "extractUnresolvedImportsFromSourceFile env f result p =
           (p\<lparr>cachedUnresolvedImportsPerFile :=
                UnresolvedImportsMap_set (sf_path f) (specUnresolvedImports env f)
                  (cachedUnresolvedImportsPerFile p)\<rparr>,
            result @ specUnresolvedImports env f)"
proof (cases "resolvedModules f")
  case None
  then show ?thesis
    using assms by (simp add: extractUnresolvedImportsFromSourceFile_def specUnresolvedImports_def)
next
  case (Some entries)
  then show ?thesis
    using assms
    by (simp add: extractUnresolvedImportsFromSourceFile_def specUnresolvedImports_def
        foldl_unresolvedImportsCallback Let_def unresolvedImportName_refines)
qed

lemma extract_hit:
  assumes "UnresolvedImportsMap_get (cachedUnresolvedImportsPerFile p) (sf_path f) = Some cached"
  shows "extractUnresolvedImportsFromSourceFile env f result p = (p, result @ cached)"
  using assms by (simp add: extractUnresolvedImportsFromSourceFile_def)

lemma get_set_same:
  "UnresolvedImportsMap_get (UnresolvedImportsMap_set k v m) k = Some v"
  by (simp add: UnresolvedImportsMap_get_def UnresolvedImportsMap_set_def)

text \<open>
  Claim C3. For every source file, the extraction answers from the cache when the file has
  an entry there (an empty list included): it appends the cached list to the sink and
  changes nothing. Otherwise it appends exactly the specifiers of \<open>resolvedModules\<close> whose
  resolution failed and which are not relative, each trimmed and cut to its package prefix
  (for a bare name the segment before the first slash, for a scoped name the segment before
  the second slash), in the order of the mapping, and stores that list as the entry of the
  file. An extraction that follows for a file of the same path appends the same list and
  leaves the state as it is.
\<close>

theorem extract_collects_and_caches:
  "extractUnresolvedImportsFromSourceFile env f result p =
     (case UnresolvedImportsMap_get (cachedUnresolvedImportsPerFile p) (sf_path f) of
        Some cached \<Rightarrow> (p, result @ cached)
      | None \<Rightarrow>
          (p\<lparr>cachedUnresolvedImportsPerFile :=
               UnresolvedImportsMap_set (sf_path f) (specUnresolvedImports env f)
                 (cachedUnresolvedImportsPerFile p)\<rparr>,
           result @ specUnresolvedImports env f))
   \<and> (sf_path g = sf_path f \<longrightarrow>
        extractUnresolvedImportsFromSourceFile env g result2
            (fst (extractUnresolvedImportsFromSourceFile env f result p)) =
          (fst (extractUnresolvedImportsFromSourceFile env f result p),
           result2 @ drop (length result) (snd (extractUnresolvedImportsFromSourceFile env f result p))))"
proof (cases "UnresolvedImportsMap_get (cachedUnresolvedImportsPerFile p) (sf_path f)")
  case None
  show ?thesis
    by (simp add: None extract_miss extract_hit get_set_same)
next
  case (Some cached)
  show ?thesis
    by (simp add: Some extract_hit)
qed


theorem extract_collects_and_caches_witness:
  "sf_path exampleSourceFile = sf_path exampleSourceFile \<and>
   snd (extractUnresolvedImportsFromSourceFile exampleEnv exampleSourceFile [] exampleProject)
     = [''@scope/pkg''] \<and>
   extractUnresolvedImportsFromSourceFile exampleEnv exampleSourceFile []
       (fst (extractUnresolvedImportsFromSourceFile exampleEnv exampleSourceFile [] exampleProject))
     = (fst (extractUnresolvedImportsFromSourceFile exampleEnv exampleSourceFile [] exampleProject),
        [''@scope/pkg''])"
proof -
  note th = extract_collects_and_caches[of exampleEnv exampleSourceFile "[]" exampleProject
      exampleSourceFile "[]"]
  have miss: "UnresolvedImportsMap_get (cachedUnresolvedImportsPerFile exampleProject)
                (sf_path exampleSourceFile) = None"
    by (simp add: example_eval)
  have names: "specUnresolvedImports exampleEnv exampleSourceFile = [''@scope/pkg'']"
    by (simp add: example_eval string_eval)
  have first: "snd (extractUnresolvedImportsFromSourceFile exampleEnv exampleSourceFile []
                 exampleProject) = [''@scope/pkg'']"
    using th miss names by simp
  have second: "extractUnresolvedImportsFromSourceFile exampleEnv exampleSourceFile []
       (fst (extractUnresolvedImportsFromSourceFile exampleEnv exampleSourceFile [] exampleProject))
     = (fst (extractUnresolvedImportsFromSourceFile exampleEnv exampleSourceFile [] exampleProject),
        [''@scope/pkg''])"
    using conjunct2[OF th] first by simp
  show ?thesis using first second by simp
qed

text \<open>
  Claim C6, as amended. For every specifier that is unresolved and not relative, the
  callback emits one string, and the number of slashes in it is decided by the trimmed
  specifier: none when the trimmed specifier is not scoped, and for a scoped one exactly one
  when the trimmed specifier contains a slash and none when it does not.
\<close>

theorem emitted_slash_count:
  assumes "\<not> isExternalModuleNameRelative env name"
  shows "\<exists>s. unresolvedImportsCallback env (u, result) (name, None) =
              (Some ((case u of None \<Rightarrow> [] | Some v \<Rightarrow> v) @ [s]), result @ [s]) \<and>
             count_list s CHR ''/'' =
               (if isScoped (trim name) \<and> CHR ''/'' \<in> set (trim name) then 1 else 0)"
  using assms
  by (simp add: unresolvedImportsCallback_step unresolvedImportName_refines count_specPackagePrefix)

theorem emitted_slash_count_witness:
  "\<not> isExternalModuleNameRelative exampleEnv ''@scope/pkg/sub'' \<and>
   (\<exists>s. unresolvedImportsCallback exampleEnv (None, []) (''@scope/pkg/sub'', None) = (Some [s], [s]) \<and>
        count_list s CHR ''/'' = 1)"
  using emitted_slash_count[of exampleEnv "''@scope/pkg/sub''" None "[]"]
  by (simp add: exampleEnv_def isScoped_def trim_def isWhiteSpaceLike_def)

text \<open>
  The claim C6 as stated fails twice. The scoped specifier \<^verbatim>\<open>@scope\<close> is emitted without
  any slash; and the specifier \<^verbatim>\<open> @a/b/c\<close>, whose first character is a space and not
  \<^verbatim>\<open>@\<close>, is emitted as \<^verbatim>\<open>@a/b\<close>, with a slash.
\<close>

theorem emitted_slash_count_counterexample:
  "unresolvedImportsCallback exampleEnv (None, []) (''@scope'', None) = (Some [''@scope''], [''@scope''])
   \<and> hd ''@scope'' = CHR ''@'' \<and> count_list ''@scope'' CHR ''/'' \<noteq> 1
   \<and> unresolvedImportsCallback exampleEnv (None, []) ('' @a/b/c'', None) = (Some [''@a/b''], [''@a/b''])
   \<and> hd '' @a/b/c'' \<noteq> CHR ''@'' \<and> count_list ''@a/b'' CHR ''/'' \<noteq> 0"
  by (simp add: unresolvedImportsCallback_def exampleEnv_def string_eval)

section \<open>The graph update: claims C1 and C4\<close>

subsection \<open>What the steps of the update leave unchanged\<close>

lemma logsOnly_refl: "logsOnly p p"
  unfolding logsOnly_def
  by (rule exI[of _ "[]"], rule exI[of _ "missingFilesMap p"], rule exI[of _ "externalFiles p"]) simp

lemma logsOnly_trans:
  assumes "logsOnly p q" and "logsOnly q r"
  shows "logsOnly p r"
proof -
  obtain cs m e where q: "q = p\<lparr>externalFiles := e, missingFilesMap := m, calls := calls p @ cs\<rparr>"
    and cs: "GetProgram \<notin> set cs"
    using assms(1) unfolding logsOnly_def by blast
  obtain cs' m' e' where r: "r = q\<lparr>externalFiles := e', missingFilesMap := m', calls := calls q @ cs'\<rparr>"
    and cs': "GetProgram \<notin> set cs'"
    using assms(2) unfolding logsOnly_def by blast
  have "r = p\<lparr>externalFiles := e', missingFilesMap := m', calls := calls p @ (cs @ cs')\<rparr>"
    using q r by simp
  moreover have "GetProgram \<notin> set (cs @ cs')" using cs cs' by simp
  ultimately show ?thesis unfolding logsOnly_def by blast
qed

lemma logsOnly_logCall: "c \<noteq> GetProgram \<Longrightarrow> logsOnly p (logCall c p)"
  unfolding logsOnly_def logCall_def
  by (rule exI[of _ "[c]"], rule exI[of _ "missingFilesMap p"], rule exI[of _ "externalFiles p"]) simp

lemma logsOnly_missingFilesMap: "logsOnly p (p\<lparr>missingFilesMap := m\<rparr>)"
  unfolding logsOnly_def
  by (rule exI[of _ "[]"], rule exI[of _ m], rule exI[of _ "externalFiles p"]) simp

lemma logsOnly_externalFiles: "logsOnly p (p\<lparr>externalFiles := e\<rparr>)"
  unfolding logsOnly_def
  by (rule exI[of _ "[]"], rule exI[of _ "missingFilesMap p"], rule exI[of _ e]) simp

lemma logsOnly_foldl:
  assumes "\<And>q x. logsOnly q (f q x)"
  shows "logsOnly p (foldl f p xs)"
proof (induction xs arbitrary: p)
  case Nil
  show ?case by (simp add: logsOnly_refl)
next
  case (Cons x xs)
  show ?case using logsOnly_trans[OF assms[of p x] Cons.IH[of "f p x"]] by simp
qed

lemma logsOnly_fields:
  assumes "logsOnly p q"
  shows "projectStructureVersion q = projectStructureVersion p"
    and "projectStateVersion q = projectStateVersion p"
    and "typingFiles q = typingFiles p"
    and "program q = program p"
    and "programStore q = programStore p"
    and "cachedUnresolvedImportsPerFile q = cachedUnresolvedImportsPerFile p"
    and "lastCachedUnresolvedImportsList q = lastCachedUnresolvedImportsList p"
    and "builder q = builder p"
    and "languageServiceEnabled q = languageServiceEnabled p"
    and "workerPasses q = workerPasses p"
  using assms unfolding logsOnly_def workerPasses_def by auto


lemma logsOnly_foldl_snd:
  assumes "\<And>acc x. logsOnly (snd acc) (snd (f acc x))"
  shows "logsOnly (snd a) (snd (foldl f a xs))"
proof (induction xs arbitrary: a)
  case Nil
  show ?case by (simp add: logsOnly_refl)
next
  case (Cons x xs)
  show ?case using logsOnly_trans[OF assms[of a x] Cons.IH[of "f a x"]] by simp
qed

lemma detachFilesNotInProgram_logsOnly: "logsOnly p (detachFilesNotInProgram env fs p)"
  unfolding detachFilesNotInProgram_def
  by (rule logsOnly_foldl) (auto simp: logsOnly_refl logsOnly_logCall split: option.splits)

lemma updateMissingFilePathsWatch_logsOnly: "logsOnly p (updateMissingFilePathsWatch env p)"
proof -
  have close: "\<And>q w ms. logsOnly q (if fst w \<in> set ms then q
                  else closeMissingFileWatcher (fst w) (snd w) NotNeeded q)"
    by (simp add: logsOnly_refl closeMissingFileWatcher_def logsOnly_logCall)
  have add: "\<And>q missingFilePath ws. logsOnly q
       (if missingFilePath \<in> fst ` set ws then q
        else (snd (addMissingFileWatcher env missingFilePath q))\<lparr>missingFilesMap :=
                   Some ((case missingFilesMap (snd (addMissingFileWatcher env missingFilePath q)) of
                            None \<Rightarrow> [] | Some m \<Rightarrow> m)
                         @ [(missingFilePath, fst (addMissingFileWatcher env missingFilePath q))])\<rparr>)"
    by (auto simp: logsOnly_refl addMissingFileWatcher_def Let_def
        intro: logsOnly_trans[OF logsOnly_logCall logsOnly_missingFilesMap])
  show ?thesis
    unfolding updateMissingFilePathsWatch_def Let_def
    by (rule logsOnly_trans[OF logsOnly_trans[OF logsOnly_foldl logsOnly_missingFilesMap] logsOnly_foldl])
       (rule close, rule add)
qed

lemma getExternalFiles_logsOnly: "logsOnly p (snd (getExternalFiles env p))"
proof (cases "projectKind p = Configured")
  case False
  then show ?thesis by (simp add: getExternalFiles_def logsOnly_refl)
next
  case True
  define f where "f = (\<lambda>acc plugin.
                case pluginGetExternalFiles env plugin (snd acc) of
                  NoGetExternalFiles \<Rightarrow> acc
                | GetExternalFilesThrows e \<Rightarrow>
                    (fst acc,
                     logCall (LoggerInfo (''A plugin threw an exception in getExternalFiles: '' @ e))
                       (logCall (CallPluginGetExternalFiles plugin) (snd acc)))
                | GetExternalFilesReturns None \<Rightarrow>
                    (fst acc, logCall (CallPluginGetExternalFiles plugin) (snd acc))
                | GetExternalFilesReturns (Some fs) \<Rightarrow>
                    (fst acc @ fs, logCall (CallPluginGetExternalFiles plugin) (snd acc)))"
  have step: "\<And>acc plugin. logsOnly (snd acc) (snd (f acc plugin))"
    unfolding f_def
    by (auto simp: logsOnly_refl logsOnly_logCall split: PluginExternalFiles.splits option.splits
        intro: logsOnly_trans[OF logsOnly_logCall logsOnly_logCall])
  have "snd (ConfiguredProject_getExternalFiles env p) = snd (foldl f ([], p) (plugins p))"
    by (simp add: ConfiguredProject_getExternalFiles_def Let_def f_def)
  moreover have "logsOnly p (snd (foldl f ([], p) (plugins p)))"
    using logsOnly_foldl_snd[of f "([], p)" "plugins p", OF step] by simp
  ultimately show ?thesis using True by (simp add: getExternalFiles_def)
qed

lemma updateExternalFiles_logsOnly: "logsOnly p (updateExternalFiles env p)"
proof -
  have step: "\<And>q change. logsOnly q
       (case change of
              Inserted inserted \<Rightarrow>
                logCall (AttachToProject inserted) (logCall (GetOrCreateScriptInfo inserted) q)
            | Deleted deleted \<Rightarrow>
                (case getScriptInfo env q deleted of
                   None \<Rightarrow> q
                 | Some scriptInfoToDetach \<Rightarrow>
                     logCall (DetachFromProject (si_fileName scriptInfoToDetach)) q))"
    by (auto simp: logsOnly_refl logsOnly_logCall split: InsertOrDelete.splits option.splits
        intro: logsOnly_trans[OF logsOnly_logCall logsOnly_logCall])
  show ?thesis
    unfolding updateExternalFiles_def Let_def
    by (rule logsOnly_trans[OF logsOnly_trans[OF getExternalFiles_logsOnly logsOnly_externalFiles]
          logsOnly_foldl]) (rule step)
qed

lemma toInt32_and_completely:
  "(toInt32 x AND 2 = 0) = (toInt32 x < 2)"
proof (cases x)
  case None
  then show ?thesis by simp
next
  case (Some f)
  then show ?thesis by (cases f) simp_all
qed

lemma updateGraphWorker_snd:
  "snd (updateGraphWorker env p) =
     specHasChanges (program p) (fst (getProgram env p)) (snd (getProgram env p))"
  by (simp add: updateGraphWorker_def specHasChanges_def Let_def toInt32_and_completely
      split: option.splits)

lemma updateGraphWorker_fst:
  "logsOnly ((logCall GetProgram p)\<lparr>program := Some (fst (getProgram env p)),
                                     programStore := snd (getProgram env p)\<rparr>)
     (fst (updateGraphWorker env p))"
  unfolding updateGraphWorker_def Let_def fst_conv
  by (intro logsOnly_trans[OF _ updateExternalFiles_logsOnly])
     (auto simp: logsOnly_refl split: option.splits
        intro: updateMissingFilePathsWatch_logsOnly
          logsOnly_trans[OF detachFilesNotInProgram_logsOnly updateMissingFilePathsWatch_logsOnly])

lemma updateGraphWorker_fields:
  "projectStructureVersion (fst (updateGraphWorker env p)) = projectStructureVersion p"
  "projectStateVersion (fst (updateGraphWorker env p)) = projectStateVersion p"
  "typingFiles (fst (updateGraphWorker env p)) = typingFiles p"
  "program (fst (updateGraphWorker env p)) = Some (fst (getProgram env p))"
  "programStore (fst (updateGraphWorker env p)) = snd (getProgram env p)"
  "cachedUnresolvedImportsPerFile (fst (updateGraphWorker env p)) = cachedUnresolvedImportsPerFile p"
  "lastCachedUnresolvedImportsList (fst (updateGraphWorker env p)) = lastCachedUnresolvedImportsList p"
  "builder (fst (updateGraphWorker env p)) = builder p"
  "languageServiceEnabled (fst (updateGraphWorker env p)) = languageServiceEnabled p"
  "workerPasses (fst (updateGraphWorker env p)) = workerPasses p + 1"
  using logsOnly_fields[OF updateGraphWorker_fst[where p=p and env=env]]
  by (simp_all add: logCall_def workerPasses_def)


lemma indexOnly_refl: "indexOnly p p"
  unfolding indexOnly_def by (rule exI[of _ "cachedUnresolvedImportsPerFile p"]) simp

lemma indexOnly_trans:
  assumes "indexOnly p q" and "indexOnly q r"
  shows "indexOnly p r"
proof -
  obtain m where q: "q = p\<lparr>cachedUnresolvedImportsPerFile := m\<rparr>"
    and m: "version (cachedUnresolvedImportsPerFile p) \<le> version m"
    using assms(1) unfolding indexOnly_def by blast
  obtain m' where r: "r = q\<lparr>cachedUnresolvedImportsPerFile := m'\<rparr>"
    and m': "version (cachedUnresolvedImportsPerFile q) \<le> version m'"
    using assms(2) unfolding indexOnly_def by blast
  have "r = p\<lparr>cachedUnresolvedImportsPerFile := m'\<rparr>" using q r by simp
  moreover have "version (cachedUnresolvedImportsPerFile p) \<le> version m'" using q m m' by simp
  ultimately show ?thesis unfolding indexOnly_def by blast
qed

lemma indexOnly_remove:
  "indexOnly p (p\<lparr>cachedUnresolvedImportsPerFile :=
       UnresolvedImportsMap_remove f (cachedUnresolvedImportsPerFile p)\<rparr>)"
  unfolding indexOnly_def
  by (rule exI[of _ "UnresolvedImportsMap_remove f (cachedUnresolvedImportsPerFile p)"])
     (simp add: UnresolvedImportsMap_remove_def)

lemma indexOnly_set:
  "indexOnly p (p\<lparr>cachedUnresolvedImportsPerFile :=
       UnresolvedImportsMap_set f v (cachedUnresolvedImportsPerFile p)\<rparr>)"
  unfolding indexOnly_def
  by (rule exI[of _ "UnresolvedImportsMap_set f v (cachedUnresolvedImportsPerFile p)"])
     (simp add: UnresolvedImportsMap_set_def)

lemma indexOnly_foldl:
  assumes "\<And>q x. indexOnly q (f q x)"
  shows "indexOnly p (foldl f p xs)"
proof (induction xs arbitrary: p)
  case Nil
  show ?case by (simp add: indexOnly_refl)
next
  case (Cons x xs)
  show ?case using indexOnly_trans[OF assms[of p x] Cons.IH[of "f p x"]] by simp
qed

lemma indexOnly_foldl_fst:
  assumes "\<And>acc x. indexOnly (fst acc) (fst (f acc x))"
  shows "indexOnly (fst a) (fst (foldl f a xs))"
proof (induction xs arbitrary: a)
  case Nil
  show ?case by (simp add: indexOnly_refl)
next
  case (Cons x xs)
  show ?case using indexOnly_trans[OF assms[of a x] Cons.IH[of "f a x"]] by simp
qed

lemma indexOnly_fields:
  assumes "indexOnly p q"
  shows "projectStructureVersion q = projectStructureVersion p"
    and "projectStateVersion q = projectStateVersion p"
    and "typingFiles q = typingFiles p"
    and "program q = program p"
    and "programStore q = programStore p"
    and "lastCachedUnresolvedImportsList q = lastCachedUnresolvedImportsList p"
    and "builder q = builder p"
    and "languageServiceEnabled q = languageServiceEnabled p"
    and "calls q = calls p"
    and "workerPasses q = workerPasses p"
    and "indexVersion p \<le> indexVersion q"
  using assms unfolding indexOnly_def workerPasses_def indexVersion_def
    UnresolvedImportsMap_getVersion_def by auto

lemma removeChangedFiles_indexOnly: "indexOnly p (removeChangedFiles fs p)"
  unfolding removeChangedFiles_def by (rule indexOnly_foldl) (rule indexOnly_remove)

lemma extract_indexOnly:
  "indexOnly p (fst (extractUnresolvedImportsFromSourceFile env f result p))"
  by (simp add: extractUnresolvedImportsFromSourceFile_def indexOnly_refl indexOnly_set Let_def
      split: option.splits)

lemma extractAll_indexOnly: "indexOnly p (fst (extractAll env fs p))"
proof -
  define f where "f = (\<lambda>acc sourceFile.
      extractUnresolvedImportsFromSourceFile env sourceFile (snd acc) (fst acc))"
  have step: "\<And>acc x. indexOnly (fst acc) (fst (f acc x))"
    unfolding f_def by (rule extract_indexOnly)
  have "extractAll env fs p = foldl f (p, []) fs"
    by (simp add: extractAll_def f_def)
  then show ?thesis using indexOnly_foldl_fst[of f "(p, [])" fs, OF step] by simp
qed

lemmas removeChangedFiles_fields = indexOnly_fields[OF removeChangedFiles_indexOnly]
lemmas extractAll_fields = indexOnly_fields[OF extractAll_indexOnly]

lemma logCall_fields:
  "projectStructureVersion (logCall c p) = projectStructureVersion p"
  "projectStateVersion (logCall c p) = projectStateVersion p"
  "typingFiles (logCall c p) = typingFiles p"
  "program (logCall c p) = program p"
  "programStore (logCall c p) = programStore p"
  "cachedUnresolvedImportsPerFile (logCall c p) = cachedUnresolvedImportsPerFile p"
  "lastCachedUnresolvedImportsList (logCall c p) = lastCachedUnresolvedImportsList p"
  "builder (logCall c p) = builder p"
  "languageServiceEnabled (logCall c p) = languageServiceEnabled p"
  "workerPasses (logCall c p) = workerPasses p + (if c = GetProgram then 1 else 0)"
  "indexVersion (logCall c p) = indexVersion p"
  by (simp_all add: logCall_def workerPasses_def indexVersion_def)


lemma workerPasses_update:
  "workerPasses (p\<lparr>lastCachedUnresolvedImportsList := a\<rparr>) = workerPasses p"
  "workerPasses (p\<lparr>typingFiles := b\<rparr>) = workerPasses p"
  "workerPasses (p\<lparr>projectStateVersion := c\<rparr>) = workerPasses p"
  "workerPasses (p\<lparr>projectStructureVersion := d\<rparr>) = workerPasses p"
  by (simp_all add: workerPasses_def)

lemma firstPass_fields:
  "projectStructureVersion (fst (updateGraph_firstPass env p)) = projectStructureVersion p"
  "typingFiles (fst (updateGraph_firstPass env p)) = typingFiles p"
  "builder (fst (updateGraph_firstPass env p)) = builder p"
  "languageServiceEnabled (fst (updateGraph_firstPass env p)) = languageServiceEnabled p"
  "workerPasses (fst (updateGraph_firstPass env p)) = workerPasses p + 1"
  unfolding updateGraph_firstPass_def Let_def
  by (simp_all add: logCall_fields updateGraphWorker_fields removeChangedFiles_fields
      extractAll_fields workerPasses_update)


lemma firstPass_hasChanges:
  "fst (snd (updateGraph_firstPass env p)) =
     snd (updateGraphWorker env (logCall CreateHasInvalidatedResolution
                 (logCall StartRecordingFilesWithChangedResolutions p)))"
  by (simp add: updateGraph_firstPass_def Let_def)

subsection \<open>The result of the update\<close>

lemma arrayIsEqualToElements_eq: "arrayIsEqualToElements xs ys = (xs = ys)"
  by (induction xs ys rule: arrayIsEqualToElements.induct) auto

lemma arrayIsEqualTo_eq: "arrayIsEqualTo a b = (a = b)"
  by (induction a b rule: arrayIsEqualTo.induct) (auto simp: arrayIsEqualToElements_eq)

lemma setTypings_fields:
  "snd (setTypings typings p) = (\<not> arrayIsEqualTo (typingFiles p) typings)"
  "projectStructureVersion (fst (setTypings typings p)) = projectStructureVersion p"
  "typingFiles (fst (setTypings typings p)) = typings"
  "builder (fst (setTypings typings p)) = builder p"
  "languageServiceEnabled (fst (setTypings typings p)) = languageServiceEnabled p"
  "workerPasses (fst (setTypings typings p)) = workerPasses p"
  "indexVersion (fst (setTypings typings p)) = indexVersion p"
  "program (fst (setTypings typings p)) = program p"
  by (auto simp: setTypings_def markAsDirty_def workerPasses_def indexVersion_def arrayIsEqualTo_eq)

lemma updateGraph_snd:
  "snd (Project_updateGraph env p) =
     (\<not> (fst (snd (updateGraph_firstPass env p)) \<or>
         (\<not> arrayIsEqualTo (typingFiles p) (snd (snd (updateGraph_firstPass env p))) \<and>
          snd (updateGraphWorker env
                 (fst (setTypings (snd (snd (updateGraph_firstPass env p)))
                         (fst (updateGraph_firstPass env p))))))))"
  by (auto simp: Project_updateGraph_def Let_def setTypings_fields firstPass_fields)

lemma updateGraph_version:
  "projectStructureVersion (fst (Project_updateGraph env p)) =
     projectStructureVersion p + (if snd (Project_updateGraph env p) then 0 else 1)"
  unfolding updateGraph_snd
  by (auto simp: Project_updateGraph_def Let_def setTypings_fields firstPass_fields
      updateGraphWorker_fields logCall_fields split: option.splits)

lemma updateGraph_workerPasses:
  "workerPasses (fst (Project_updateGraph env p)) =
     workerPasses p +
       (if arrayIsEqualTo (typingFiles p) (snd (snd (updateGraph_firstPass env p))) then 1 else 2)"
  by (auto simp: Project_updateGraph_def Let_def setTypings_fields firstPass_fields
      updateGraphWorker_fields logCall_fields workerPasses_update split: option.splits)

lemma updateGraph_typingFiles:
  "typingFiles (fst (Project_updateGraph env p)) = snd (snd (updateGraph_firstPass env p))"
  by (auto simp: Project_updateGraph_def Let_def setTypings_fields firstPass_fields
      updateGraphWorker_fields logCall_fields split: option.splits)




text \<open>
  Claim C1. \<^verbatim>\<open>updateGraph\<close> returns true exactly when no pass of the graph worker detected
  a change, and the structure version grows by exactly one when a change was detected and
  stays as it is otherwise. A pass detects a change exactly when there is no previous
  program, or the new program differs from the previous one and the structure-reuse flag
  of the previous one is less than Completely. The first pass runs in the state
  \<open>firstState\<close>; the second pass runs, when the typings differ, in the state
  \<open>secondState\<close>, whose previous program is the program of the first pass.
\<close>

theorem updateGraph_returns_unchanged:
  "let firstState = logCall CreateHasInvalidatedResolution
                      (logCall StartRecordingFilesWithChangedResolutions p);
       first = updateGraph_firstPass env p;
       rerun = (\<not> arrayIsEqualTo (typingFiles p) (snd (snd first)));
       secondState = fst (setTypings (snd (snd first)) (fst first));
       changeDetected = (fst (snd first) \<or> (rerun \<and> snd (updateGraphWorker env secondState)))
   in snd (Project_updateGraph env p) = (\<not> changeDetected) \<and>
      projectStructureVersion (fst (Project_updateGraph env p)) =
        projectStructureVersion p + (if changeDetected then 1 else 0) \<and>
      fst (snd first) =
        specHasChanges (program p) (fst (getProgram env firstState)) (snd (getProgram env firstState)) \<and>
      snd (updateGraphWorker env secondState) =
        specHasChanges (program secondState)
          (fst (getProgram env secondState)) (snd (getProgram env secondState)) \<and>
      program secondState = Some (fst (getProgram env firstState))"
proof -
  have a: "program (logCall CreateHasInvalidatedResolution
                      (logCall StartRecordingFilesWithChangedResolutions p)) = program p"
    by (simp add: logCall_fields)
  have b: "program (fst (updateGraph_firstPass env p)) =
      Some (fst (getProgram env (logCall CreateHasInvalidatedResolution
                      (logCall StartRecordingFilesWithChangedResolutions p))))"
    unfolding updateGraph_firstPass_def Let_def
    by (simp add: logCall_fields updateGraphWorker_fields removeChangedFiles_fields
        extractAll_fields)
  show ?thesis
    unfolding Let_def
    using updateGraph_snd[of env p] updateGraph_version[of env p]
    by (simp add: firstPass_hasChanges updateGraphWorker_snd a b setTypings_fields)
qed

text \<open>
  Claim C4. Within one call of \<^verbatim>\<open>updateGraph\<close> the graph worker runs once when the typings
  that the typings cache answers equal the previous typing files, and twice when they
  differ, whatever the second pass produces; \<^verbatim>\<open>arrayIsEqualTo\<close> holds exactly for equal
  lists (or two absent ones), and afterwards the typing files are the answered typings.
\<close>

theorem worker_runs_at_most_twice:
  "workerPasses (fst (Project_updateGraph env p)) =
     workerPasses p +
       (if arrayIsEqualTo (typingFiles p) (snd (snd (updateGraph_firstPass env p))) then 1 else 2) \<and>
   arrayIsEqualTo (typingFiles p) (snd (snd (updateGraph_firstPass env p))) =
     (typingFiles p = snd (snd (updateGraph_firstPass env p))) \<and>
   typingFiles (fst (Project_updateGraph env p)) = snd (snd (updateGraph_firstPass env p))"
  by (simp add: updateGraph_workerPasses arrayIsEqualTo_eq updateGraph_typingFiles)

section \<open>Reporting changes, the reload latch and absent options: claims C2, C5 and C10\<close>




lemma mapSetKey_distinct: "distinct ks \<Longrightarrow> distinct (mapSetKey k ks)"
  by (simp add: mapSetKey_def)

lemma foldl_mapSetKey_distinct:
  "distinct acc \<Longrightarrow> distinct (foldl (\<lambda>ks k. mapSetKey k ks) acc xs)"
  by (induction xs arbitrary: acc) (simp_all add: mapSetKey_distinct)

lemma arrayToSet_distinct: "distinct (arrayToSet xs)"
  by (simp add: arrayToSet_def foldl_mapSetKey_distinct)



text \<open>
  Claim C5. On a configured project whose \<open>pendingReload\<close> latch is set, \<^verbatim>\<open>updateGraph\<close>
  returns true, and the state it returns is what \<^verbatim>\<open>projectService.reloadConfiguredProject\<close>
  makes of the project with the latch cleared: the state handed over differs from the one
  before the call in the latch and in the trace only, where the request for the reload is
  the only new call. When the latch is not set the method is the base \<^verbatim>\<open>updateGraph\<close>.
\<close>

theorem configured_updateGraph_pendingReload:
  "(pendingReload p \<longrightarrow>
      snd (ConfiguredProject_updateGraph env p) = True \<and>
      (\<exists>q. fst (ConfiguredProject_updateGraph env p) = reloadConfiguredProject env q \<and>
           \<not> pendingReload q \<and> calls q = calls p @ [ReloadConfiguredProject] \<and>
           q\<lparr>pendingReload := True, calls := calls p\<rparr> = p)) \<and>
   (\<not> pendingReload p \<longrightarrow> ConfiguredProject_updateGraph env p = Project_updateGraph env p)"
proof (cases "pendingReload p")
  case True
  let ?q = "logCall ReloadConfiguredProject (p\<lparr>pendingReload := False\<rparr>)"
  have "fst (ConfiguredProject_updateGraph env p) = reloadConfiguredProject env ?q"
    and "snd (ConfiguredProject_updateGraph env p) = True"
    using True by (simp_all add: ConfiguredProject_updateGraph_def Let_def)
  moreover have "\<not> pendingReload ?q" and "calls ?q = calls p @ [ReloadConfiguredProject]"
    and "?q\<lparr>pendingReload := True, calls := calls p\<rparr> = p"
    using True by (simp_all add: logCall_def)
  ultimately show ?thesis using True by blast
next
  case False
  then show ?thesis by (simp add: ConfiguredProject_updateGraph_def)
qed

theorem configured_updateGraph_pendingReload_witness:
  "pendingReload (exampleConfiguredProject\<lparr>pendingReload := True\<rparr>) \<and>
   snd (ConfiguredProject_updateGraph exampleEnv (exampleConfiguredProject\<lparr>pendingReload := True\<rparr>)) = True \<and>
   \<not> pendingReload (fst (ConfiguredProject_updateGraph exampleEnv
        (exampleConfiguredProject\<lparr>pendingReload := True\<rparr>))) \<and>
   \<not> pendingReload (exampleConfiguredProject\<lparr>pendingReload := False\<rparr>) \<and>
   ConfiguredProject_updateGraph exampleEnv (exampleConfiguredProject\<lparr>pendingReload := False\<rparr>) =
     Project_updateGraph exampleEnv (exampleConfiguredProject\<lparr>pendingReload := False\<rparr>)"
proof -
  have reload: "\<And>q. reloadConfiguredProject exampleEnv q = q" by (simp add: exampleEnv_def)
  note a = configured_updateGraph_pendingReload[of "exampleConfiguredProject\<lparr>pendingReload := True\<rparr>" exampleEnv]
  note b = configured_updateGraph_pendingReload[of "exampleConfiguredProject\<lparr>pendingReload := False\<rparr>" exampleEnv]
  show ?thesis using a b by (auto simp: reload)
qed

text \<open>
  Claim C10. The base \<^verbatim>\<open>setCompilerOptions\<close> called without options returns the state it
  was called in: the stored options and the options store, the unresolved-imports index,
  the state version and the trace of calls (so the resolution cache is not cleared) are
  what they were. Called with options it does mark the project dirty.
\<close>

theorem setCompilerOptions_absent_noop:
  "Project_setCompilerOptions env None p = p \<and>
   projectStateVersion (Project_setCompilerOptions env (Some r) p) = projectStateVersion p + 1"
  by (simp add: Project_setCompilerOptions_def Let_def markAsDirty_def logCall_def
      setInternalCompilerOptionsForEmittingJsFiles_def updateOptions_def)

section \<open>The options of an inferred project: claim C7\<close>

lemma setInternal_store_other:
  "r' \<noteq> compilerOptions p \<Longrightarrow>
   optionsStore (setInternalCompilerOptionsForEmittingJsFiles p) r' = optionsStore p r'"
  by (simp add: setInternalCompilerOptionsForEmittingJsFiles_def updateOptions_def)

lemma Project_setCompilerOptions_store:
  "optionsStore (Project_setCompilerOptions env (Some n) p) =
     (optionsStore p)(n := (optionsStore p n)
        \<lparr>allowNonTsExtensions := Some True,
         noEmitForJsFiles := (if projectKind p = Inferred \<or> projectKind p = External then Some True
                              else noEmitForJsFiles (optionsStore p n))\<rparr>)"
  by (auto simp: Project_setCompilerOptions_def Let_def markAsDirty_def logCall_def
      setInternalCompilerOptionsForEmittingJsFiles_def updateOptions_def)

lemma Project_setCompilerOptions_compilerOptions:
  "compilerOptions (Project_setCompilerOptions env (Some n) p) = n"
  by (auto simp: Project_setCompilerOptions_def Let_def markAsDirty_def logCall_def
      setInternalCompilerOptionsForEmittingJsFiles_def updateOptions_def)

text \<open>
  Claim C7, as amended. \<^verbatim>\<open>InferredProject.setCompilerOptions(options)\<close> works on a clone:
  no options object that existed before the call is changed (the caller's one included), and
  the effective options are a new object. On the effective options \<open>allowJs\<close> is true;
  \<open>maxNodeModuleJsDepth\<close> is absent when the project is not JS-flavoured, and when it is
  JS-flavoured it is the number of the incoming options if they carry one and 2 otherwise.
\<close>

theorem inferred_setCompilerOptions_effective:
  assumes "r < optionsNext p" and "r' < optionsNext p"
  shows "let p' = InferredProject_setCompilerOptions env (Some r) p;
             effective = optionsStore p' (compilerOptions p')
         in optionsStore p' r' = optionsStore p r' \<and>
            compilerOptions p' = optionsNext p \<and>
            allowJs effective = Some True \<and>
            maxNodeModuleJsDepth effective =
              (if isJsInferredProject p
               then (case maxNodeModuleJsDepth (optionsStore p r) of None \<Rightarrow> Some 2 | Some n \<Rightarrow> Some n)
               else None) \<and>
            co_plugins effective = co_plugins (optionsStore p r) \<and>
            otherOptions effective = otherOptions (optionsStore p r)"
  using assms
  unfolding InferredProject_setCompilerOptions_def Let_def
  by (auto simp: Project_setCompilerOptions_store Project_setCompilerOptions_compilerOptions
      cloneCompilerOptions_def updateOptions_def split: option.splits)

lemma exampleInferredProject_optionsNext: "optionsNext exampleInferredProject = 4"
  by (simp add: project_eval)

lemma exampleInferredProject_store:
  "optionsStore exampleInferredProject 2 = exampleStore 2"
  "optionsStore exampleInferredProject 3 = exampleStore 3"
  by (simp_all add: project_eval)

theorem inferred_setCompilerOptions_effective_witness:
  "(3::nat) < optionsNext (exampleInferredProject\<lparr>isJsInferredProject := True\<rparr>) \<and>
   (let p' = InferredProject_setCompilerOptions exampleEnv (Some 3)
               (exampleInferredProject\<lparr>isJsInferredProject := True\<rparr>);
        effective = optionsStore p' (compilerOptions p')
    in optionsStore p' 3 = exampleStore 3 \<and> compilerOptions p' = 4 \<and>
       allowJs effective = Some True \<and> maxNodeModuleJsDepth effective = Some 2)"
proof -
  let ?p = "exampleInferredProject\<lparr>isJsInferredProject := True\<rparr>"
  have h: "3 < optionsNext ?p" by (simp add: exampleInferredProject_optionsNext)
  have mx: "maxNodeModuleJsDepth (exampleStore 3) = None"
    by (simp add: exampleStore_def exampleOptions_def)
  define p' where "p' = InferredProject_setCompilerOptions exampleEnv (Some 3) ?p"
  note th = inferred_setCompilerOptions_effective[OF h h, of exampleEnv, unfolded Let_def,
      folded p'_def]
  have c: "compilerOptions p' = 4"
    using th by (simp add: exampleInferredProject_optionsNext)
  have s: "optionsStore p' 3 = exampleStore 3"
    using th by (simp add: exampleInferredProject_store)
  have a: "allowJs (optionsStore p' 4) = Some True"
    using th by (simp add: c)
  have m: "maxNodeModuleJsDepth (optionsStore p' 4) = Some 2"
    using th by (simp add: c exampleInferredProject_store mx)
  show ?thesis
    unfolding Let_def p'_def[symmetric] using h c s a m by simp
qed

text \<open>
  The claim C7 as stated fails: on a JS-flavoured project, incoming options that carry
  \<^verbatim>\<open>maxNodeModuleJsDepth = 5\<close> keep the 5.
\<close>

theorem inferred_setCompilerOptions_counterexample:
  "isJsInferredProject (exampleInferredProject\<lparr>isJsInferredProject := True\<rparr>) \<and>
   maxNodeModuleJsDepth (exampleStore 2) = Some 5 \<and>
   maxNodeModuleJsDepth
     (optionsStore
        (InferredProject_setCompilerOptions exampleEnv (Some 2)
           (exampleInferredProject\<lparr>isJsInferredProject := True\<rparr>))
        (compilerOptions
           (InferredProject_setCompilerOptions exampleEnv (Some 2)
              (exampleInferredProject\<lparr>isJsInferredProject := True\<rparr>)))) = Some 5"
  by (simp add: InferredProject_setCompilerOptions_def Let_def
      Project_setCompilerOptions_store Project_setCompilerOptions_compilerOptions
      cloneCompilerOptions_def updateOptions_def exampleInferredProject_optionsNext
      exampleInferredProject_store exampleStore_def exampleOptions_def)

section \<open>Plugin activation: claim C8\<close>

lemma enableProxy_failure:
  assumes "callPluginModuleFactory env f = Inl e \<or>
           (\<exists>m. callPluginModuleFactory env f = Inr m \<and>
                pluginCreate env m \<lparr>pci_config = c, pci_languageService = languageService p\<rparr> = Inl e)"
  shows "\<exists>cs. enableProxy env (FactoryFunction f) c p = p\<lparr>calls := calls p @ cs\<rparr> \<and>
              cs \<noteq> [] \<and> last cs = LoggerInfo (''Plugin activation failed: '' @ e)"
  using assms
proof
  assume "callPluginModuleFactory env f = Inl e"
  then have "enableProxy env (FactoryFunction f) c p =
      p\<lparr>calls := calls p @ [CallPluginFactory f, LoggerInfo (''Plugin activation failed: '' @ e)]\<rparr>"
    by (simp add: enableProxy_def enableProxy_try_def Let_def logCall_def)
  moreover have "last [CallPluginFactory f, LoggerInfo (''Plugin activation failed: '' @ e)] =
      LoggerInfo (''Plugin activation failed: '' @ e)" by simp
  ultimately show ?thesis by blast
next
  assume "\<exists>m. callPluginModuleFactory env f = Inr m \<and>
                pluginCreate env m \<lparr>pci_config = c, pci_languageService = languageService p\<rparr> = Inl e"
  then obtain m where m: "callPluginModuleFactory env f = Inr m"
    and cr: "pluginCreate env m \<lparr>pci_config = c, pci_languageService = languageService p\<rparr> = Inl e"
    by blast
  have "enableProxy env (FactoryFunction f) c p =
      p\<lparr>calls := calls p @ [CallPluginFactory f,
              CallPluginCreate m \<lparr>pci_config = c, pci_languageService = languageService p\<rparr>,
              LoggerInfo (''Plugin activation failed: '' @ e)]\<rparr>"
    using m cr by (simp add: enableProxy_def enableProxy_try_def Let_def logCall_def)
  moreover have "last [CallPluginFactory f,
              CallPluginCreate m \<lparr>pci_config = c, pci_languageService = languageService p\<rparr>,
              LoggerInfo (''Plugin activation failed: '' @ e)] =
      LoggerInfo (''Plugin activation failed: '' @ e)" by simp
  ultimately show ?thesis by blast
qed

lemma enableProxy_success:
  assumes "callPluginModuleFactory env f = Inr m"
    and "pluginCreate env m \<lparr>pci_config = c, pci_languageService = languageService p\<rparr> = Inr s"
  shows "enableProxy env (FactoryFunction f) c p =
           p\<lparr>languageService := s, plugins := plugins p @ [m],
             calls := calls p @ [CallPluginFactory f,
               CallPluginCreate m \<lparr>pci_config = c, pci_languageService = languageService p\<rparr>]\<rparr>"
  using assms by (simp add: enableProxy_def enableProxy_try_def Let_def logCall_def)

text \<open>
  Claim C8. \<^verbatim>\<open>enableProxy\<close> always returns. When the factory of a plugin or its
  \<^verbatim>\<open>create(info)\<close> throws, the state after \<^verbatim>\<open>enableProxy\<close> is the state before it but for the
  trace, whose last entry is the logged failure: the language service and the list of
  plugins are what they were. A plugin that is enabled next is created over the language
  service as it stood before the failing plugin, and the service it answers becomes the
  language service of the project.
\<close>

theorem plugin_failure_is_caught:
  assumes "callPluginModuleFactory env f1 = Inl e \<or>
           (\<exists>m. callPluginModuleFactory env f1 = Inr m \<and>
                pluginCreate env m \<lparr>pci_config = c1, pci_languageService = languageService p\<rparr> = Inl e)"
  shows "let q = enableProxy env (FactoryFunction f1) c1 p
         in q\<lparr>calls := calls p\<rparr> = p \<and>
            languageService q = languageService p \<and>
            plugins q = plugins p \<and>
            last (calls q) = LoggerInfo (''Plugin activation failed: '' @ e) \<and>
            (\<forall>f2 c2 m2 s2.
               callPluginModuleFactory env f2 = Inr m2 \<longrightarrow>
               pluginCreate env m2 \<lparr>pci_config = c2, pci_languageService = languageService p\<rparr> = Inr s2 \<longrightarrow>
                 languageService (enableProxy env (FactoryFunction f2) c2 q) = s2 \<and>
                 plugins (enableProxy env (FactoryFunction f2) c2 q) = plugins p @ [m2] \<and>
                 last (calls (enableProxy env (FactoryFunction f2) c2 q)) =
                   CallPluginCreate m2 \<lparr>pci_config = c2, pci_languageService = languageService p\<rparr>)"
proof -
  define q where "q = enableProxy env (FactoryFunction f1) c1 p"
  obtain cs where q: "q = p\<lparr>calls := calls p @ cs\<rparr>" and cs: "cs \<noteq> []"
    and lastcs: "last cs = LoggerInfo (''Plugin activation failed: '' @ e)"
    using enableProxy_failure[OF assms] unfolding q_def by blast
  have frame: "q\<lparr>calls := calls p\<rparr> = p" "languageService q = languageService p"
    "plugins q = plugins p"
    by (simp_all add: q)
  have lastq: "last (calls q) = LoggerInfo (''Plugin activation failed: '' @ e)"
    using cs lastcs by (simp add: q)
  have second: "languageService (enableProxy env (FactoryFunction f2) c2 q) = s2 \<and>
      plugins (enableProxy env (FactoryFunction f2) c2 q) = plugins p @ [m2] \<and>
      last (calls (enableProxy env (FactoryFunction f2) c2 q)) =
        CallPluginCreate m2 \<lparr>pci_config = c2, pci_languageService = languageService p\<rparr>"
    if "callPluginModuleFactory env f2 = Inr m2"
      and "pluginCreate env m2 \<lparr>pci_config = c2, pci_languageService = languageService p\<rparr> = Inr s2"
    for f2 c2 m2 s2
  proof -
    have "pluginCreate env m2 \<lparr>pci_config = c2, pci_languageService = languageService q\<rparr> = Inr s2"
      using that(2) by (simp add: frame)
    from enableProxy_success[OF that(1) this] show ?thesis by (simp add: frame)
  qed
  show ?thesis
    unfolding Let_def q_def[symmetric] using frame lastq second by blast
qed

theorem plugin_failure_is_caught_witness:
  "(callPluginModuleFactory exampleEnv 1 = Inl ''Error: P1'' \<or>
    (\<exists>m. callPluginModuleFactory exampleEnv 1 = Inr m \<and>
         pluginCreate exampleEnv m
           \<lparr>pci_config = \<lparr>pi_name = ''P1'', pi_global = None\<rparr>,
            pci_languageService = languageService exampleProject\<rparr> = Inl ''Error: P1'')) \<and>
   languageService (enableProxy exampleEnv (FactoryFunction 1)
       \<lparr>pi_name = ''P1'', pi_global = None\<rparr> exampleProject) = 0 \<and>
   languageService
     (enableProxy exampleEnv (FactoryFunction 2) \<lparr>pi_name = ''P2'', pi_global = None\<rparr>
        (enableProxy exampleEnv (FactoryFunction 1) \<lparr>pi_name = ''P1'', pi_global = None\<rparr>
           exampleProject)) = 200"
proof -
  have ls: "languageService exampleProject = 0" by (simp add: project_eval)
  have f1: "callPluginModuleFactory exampleEnv 1 = Inr 1" by (simp add: exampleEnv_def)
  have c1: "pluginCreate exampleEnv 1
           \<lparr>pci_config = \<lparr>pi_name = ''P1'', pi_global = None\<rparr>,
            pci_languageService = languageService exampleProject\<rparr> = Inl ''Error: P1''"
    by (simp add: exampleEnv_def)
  have h: "callPluginModuleFactory exampleEnv 1 = Inl ''Error: P1'' \<or>
    (\<exists>m. callPluginModuleFactory exampleEnv 1 = Inr m \<and>
         pluginCreate exampleEnv m
           \<lparr>pci_config = \<lparr>pi_name = ''P1'', pi_global = None\<rparr>,
            pci_languageService = languageService exampleProject\<rparr> = Inl ''Error: P1'')"
    using f1 c1 by blast
  have f2: "callPluginModuleFactory exampleEnv 2 = Inr 2" by (simp add: exampleEnv_def)
  have c2: "pluginCreate exampleEnv 2
           \<lparr>pci_config = \<lparr>pi_name = ''P2'', pi_global = None\<rparr>,
            pci_languageService = languageService exampleProject\<rparr> = Inr 200"
    by (simp add: exampleEnv_def ls)
  note th = plugin_failure_is_caught[OF h, unfolded Let_def]
  have a: "languageService (enableProxy exampleEnv (FactoryFunction 1)
       \<lparr>pi_name = ''P1'', pi_global = None\<rparr> exampleProject) = 0"
    using th ls by simp
  have b: "languageService
     (enableProxy exampleEnv (FactoryFunction 2) \<lparr>pi_name = ''P2'', pi_global = None\<rparr>
        (enableProxy exampleEnv (FactoryFunction 1) \<lparr>pi_name = ''P1'', pi_global = None\<rparr>
           exampleProject)) = 200"
    using th f2 c2 by blast
  show ?thesis using h a b by blast
qed

text \<open>
  The sixth scenario of the specification, through the constructor: the project lists the
  plugins \<^verbatim>\<open>P1\<close>, whose \<^verbatim>\<open>create\<close> throws, and \<^verbatim>\<open>P2\<close>. After the construction the
  language service is the one that \<^verbatim>\<open>P2\<close> made over the original service 0.
\<close>

lemma scenario_plugin_wrapping:
  "languageService exampleConfiguredProject = 200 \<and> plugins exampleConfiguredProject = [2]"
  by (simp add: exampleConfiguredProject_def ConfiguredProject_constructor_def enablePlugins_def
      enablePlugin_def resolveModule_def enableProxy_def enableProxy_try_def getCompilerOptions_def
      Let_def project_eval)

section \<open>The version of the unresolved-imports index: claim C9\<close>













lemma exampleProject_isRoot: "\<not> isRoot exampleProject exampleScriptInfo"
  by (simp add: isRoot_def project_eval)


lemma removeFile_example_state:
  "removeFile env exampleScriptInfo True exampleProject =
     exampleProject
       \<lparr>cachedUnresolvedImportsPerFile :=
          UnresolvedImportsMap_remove (si_path exampleScriptInfo)
            (cachedUnresolvedImportsPerFile exampleProject),
        calls := calls exampleProject @
          [InvalidateResolutionOfFile (si_path exampleScriptInfo),
           DetachFromProject (si_fileName exampleScriptInfo)],
        projectStateVersion := projectStateVersion exampleProject + 1\<rparr>"
  by (simp add: removeFile_def exampleProject_isRoot Let_def markAsDirty_def logCall_def)


text \<open>
  The same run with the options 1, which ask for a module resolution of their own, has a
  step that affects module resolution.
\<close>

lemma example_resolution_change_detected:
  "\<not> noStepAffectsResolution exampleEnv exampleProject
     [OpRemoveFile exampleScriptInfo True, OpSetCompilerOptions (Some 1)]"
proof -
  let ?q = "removeFile exampleEnv exampleScriptInfo True exampleProject"
  note q = removeFile_example_state[of exampleEnv]
  have kind: "projectKind ?q = External"
    unfolding q by (simp add: project_eval)
  have co: "compilerOptions ?q = 0"
    unfolding q by (simp add: project_eval)
  have st: "otherOptions (optionsStore ?q 0) = []"
      "otherOptions (optionsStore ?q (Suc 0)) = [(''moduleResolution'', ''classic'')]"
    unfolding q by (simp_all add: project_eval)
  have cond: "changesAffectModuleResolution exampleEnv a b = (otherOptions a \<noteq> otherOptions b)"
    for a b by (simp add: exampleEnv_def)
  have "operationAffectsResolution exampleEnv ?q (OpSetCompilerOptions (Some 1))"
    by (simp add: operationAffectsResolution_def kind
        Project_setCompilerOptions_affectsResolution_def Let_def cond co st updateOptions_def)
  then show ?thesis
    by (simp add: applyOperation_def)
qed


section \<open>The example project through an update and a report\<close>

lemmas update_eval =
  Project_updateGraph_def updateGraph_firstPass_def updateGraphWorker_def
  updateExternalFiles_def getExternalFiles_def updateMissingFilePathsWatch_def
  detachFilesNotInProgram_def removeChangedFiles_def extractAll_def getSourceFiles_def
  setTypings_def arrayToSet_def Let_def

text \<open>
  The first update of the example project finds no previous program: it reports a change,
  the structure version becomes 1, and since the typings cache answers a list where there
  was none the worker runs a second time.
\<close>

lemma exampleProject_after_update:
  "fst (Project_updateGraph exampleEnv exampleProject) =
     exampleProject
       \<lparr>program := Some 1, externalFiles := Some [], missingFilesMap := Some [],
        lastCachedUnresolvedImportsList := Some [], projectStructureVersion := 1,
        projectStateVersion := 2, typingFiles := Some [],
        calls := calls exampleProject @
          [StartRecordingFilesWithChangedResolutions, CreateHasInvalidatedResolution, GetProgram,
           FinishRecordingFilesWithChangedResolutions, GetTypingsForProject (Some []) True,
           GetProgram]\<rparr> \<and>
   snd (Project_updateGraph exampleEnv exampleProject) = False"
  by (simp add: update_eval project_eval)


text \<open>An update that follows at once finds the same program and reports no change.\<close>

lemma exampleProject_second_update:
  "snd (Project_updateGraph exampleEnv (fst (Project_updateGraph exampleEnv exampleProject))) = True \<and>
   projectStructureVersion
     (fst (Project_updateGraph exampleEnv (fst (Project_updateGraph exampleEnv exampleProject)))) = 1"
  unfolding conjunct1[OF exampleProject_after_update]
  by (simp add: update_eval project_eval)

text \<open>
  The first report of changes is a baseline with the (empty) list of files and the version
  1; a second request that names the version 1 is answered with neither files nor changes.
\<close>

lemma exampleProject_change_report:
  "r_files (snd (getChangesSinceVersion exampleEnv None exampleProject)) = Some [] \<and>
   r_changes (snd (getChangesSinceVersion exampleEnv None exampleProject)) = None \<and>
   info_version (r_info (snd (getChangesSinceVersion exampleEnv None exampleProject))) = 1 \<and>
   r_files (snd (getChangesSinceVersion exampleEnv (Some 1)
      (fst (getChangesSinceVersion exampleEnv None exampleProject)))) = None \<and>
   r_changes (snd (getChangesSinceVersion exampleEnv (Some 1)
      (fst (getChangesSinceVersion exampleEnv None exampleProject)))) = None"
proof -
  have kind: "projectKind exampleProject = External" by (simp add: project_eval)
  have first: "getChangesSinceVersion exampleEnv None exampleProject =
      (let p = fst (Project_updateGraph exampleEnv exampleProject)
       in (p\<lparr>updatedFileNames := None, lastReportedFileNames := Some [],
              lastReportedVersion := 1\<rparr>,
           \<lparr>r_info = \<lparr>info_projectName = ''project'', info_version = 1, info_isInferred = False,
                       info_options = 0, info_languageServiceDisabled = False\<rparr>,
            r_files = Some [], r_changes = None, r_projectErrors = Some []\<rparr>))"
    unfolding getChangesSinceVersion_def updateGraph_def Let_def
    by (simp add: kind conjunct1[OF exampleProject_after_update] getFileNames_def
        getGlobalProjectErrors_def getProjectName_def getCompilerOptions_def arrayToSet_def)
       (simp add: project_eval)
  show ?thesis
    unfolding first Let_def conjunct1[OF exampleProject_after_update]
    by (simp add: getChangesSinceVersion_def updateGraph_def getFileNames_def
        getGlobalProjectErrors_def getProjectName_def getCompilerOptions_def update_eval
        project_eval)
qed

end
